theory Spec2Isabelle
  imports Complex_Main
begin

section \<open>Abort paths\<close>

text \<open>
  Modelled from the spec: the macros \<^verbatim>\<open>MSG_FATAL\<close>, \<^verbatim>\<open>MSG_ABORT\<close> and
  \<^verbatim>\<open>INVALID_ARG_ABORT\<close>, which are defined outside the files at hand. A contract
  violation is fatal: the macro ends the run at once, nothing is retried and nothing is
  recovered. A function that reaches one of them returns the matching error value and
  nothing else; a function that calls it passes the error on unchanged.
  \<^verbatim>\<open>EigenAssert\<close> stands for the assertion of the dense linear algebra library on an
  empty coefficient search (\<^verbatim>\<open>maxCoeff\<close> of a vector of size zero).
\<close>

datatype error = Fatal string | Abort string | InvalidArgAbort | EigenAssert

section \<open>Orbital meta data (qmfunctions/Orbital.cpp)\<close>

text \<open>
  \<^verbatim>\<open>orb_data({rank, spin, occ})\<close>: the three fields of the orbital's meta data in the
  order of the initialiser. The occupation is a \<^verbatim>\<open>double\<close>, read here as a real number.
\<close>

record OrbitalData =
  rank_id :: int
  spin :: int
  occ :: real

text \<open>
  The enumeration \<^verbatim>\<open>SPIN\<close> is declared outside the files at hand; its three values are
  parameters of the model.
\<close>

record SPIN =
  Paired :: int
  Alpha :: int
  Beta :: int

text \<open>
  \<^verbatim>\<open>Orbital::Orbital(int spin, double occ, int rank)\<close>. The three \<^verbatim>\<open>if\<close> statements on the
  spin run one after the other, each on the spin stored in the meta data.
\<close>

definition Orbital :: "SPIN \<Rightarrow> int \<Rightarrow> real \<Rightarrow> int \<Rightarrow> error + OrbitalData" where
  "Orbital S spin_arg occ_arg rank =
     (let d = \<lparr>rank_id = rank, spin = spin_arg, occ = occ_arg\<rparr> in
      if spin d < 0 then Inl InvalidArgAbort
      else if occ d < 0 then
        (let d1 = (if spin d = Paired S then d\<lparr>occ := 2\<rparr> else d);
             d2 = (if spin d1 = Alpha S then d1\<lparr>occ := 1\<rparr> else d1);
             d3 = (if spin d2 = Beta S then d2\<lparr>occ := 1\<rparr> else d2)
         in Inr d3)
      else Inr d)"

text \<open>\<^verbatim>\<open>Orbital::Orbital()\<close>: \<^verbatim>\<open>orb_data({-1, 0, 0})\<close>.\<close>

definition Orbital_default :: OrbitalData where
  "Orbital_default = \<lparr>rank_id = - 1, spin = 0, occ = 0\<rparr>"

text \<open>\<^verbatim>\<open>Orbital::printSpin\<close>: the character \<^verbatim>\<open>u\<close> is kept for a spin that is none of the three.\<close>

definition printSpin :: "SPIN \<Rightarrow> OrbitalData \<Rightarrow> char" where
  "printSpin S d =
     (let sp = CHR ''u'';
          sp = (if spin d = Paired S then CHR ''p'' else sp);
          sp = (if spin d = Alpha S then CHR ''a'' else sp);
          sp = (if spin d = Beta S then CHR ''b'' else sp)
      in sp)"

text \<open>The values the enumeration takes when its members are numbered from zero.\<close>

definition SPIN_enum :: SPIN where
  "SPIN_enum = \<lparr>Paired = 0, Alpha = 1, Beta = 2\<rparr>"

section \<open>Nuclear potential (constructor guard)\<close>

text \<open>
  \<^verbatim>\<open>NuclearPotential::NuclearPotential(nucs, proj_prec, smooth_prec, mpi_share)\<close>. The first
  statement aborts on a negative projection precision, the second replaces a negative
  smoothing precision by the projection precision. Everything after the two guards
  (building the smoothed nuclear functions, projecting and reducing the potential) is the
  parameter \<open>build\<close>, applied to the nuclei, the projection precision and the
  smoothing precision in force.
\<close>

definition NuclearPotential ::
  "('n list \<Rightarrow> real \<Rightarrow> real \<Rightarrow> bool \<Rightarrow> 'p) \<Rightarrow> 'n list \<Rightarrow> real \<Rightarrow> real \<Rightarrow> bool \<Rightarrow> error + 'p" where
  "NuclearPotential build nucs proj_prec smooth_prec mpi_share =
     (if proj_prec < 0 then Inl (Abort ''Negative projection precision'')
      else let smooth_prec' = (if smooth_prec < 0 then proj_prec else smooth_prec)
           in Inr (build nucs proj_prec smooth_prec' mpi_share))"

section \<open>Dense matrices and vectors\<close>

text \<open>
  A \<^verbatim>\<open>ComplexMatrix\<close> is a dense matrix of complex numbers, kept as the list of its rows;
  a \<^verbatim>\<open>ComplexVector\<close> and a \<^verbatim>\<open>DoubleVector\<close> are lists of coefficients. Doubles are read
  as real numbers, so every identity below is one of exact arithmetic. The matrices of
  one update all have the orbital count as their number of rows and of columns; the
  theorems state that as \<open>square\<close>.
\<close>

type_synonym ComplexMatrix = "complex list list"
type_synonym ComplexVector = "complex list"
type_synonym DoubleVector = "real list"

definition cols :: "ComplexMatrix \<Rightarrow> nat" where
  "cols A = (case A of [] \<Rightarrow> 0 | r # _ \<Rightarrow> length r)"

definition entry :: "ComplexMatrix \<Rightarrow> nat \<Rightarrow> nat \<Rightarrow> complex" where
  "entry A i j = A ! i ! j"

definition square :: "nat \<Rightarrow> ComplexMatrix \<Rightarrow> bool" where
  "square n A \<longleftrightarrow> length A = n \<and> list_all (\<lambda>r. length r = n) A"

text \<open>\<^verbatim>\<open>A + B\<close>, \<^verbatim>\<open>A - B\<close> and \<^verbatim>\<open>c * A\<close>, coefficient by coefficient.\<close>

definition madd :: "ComplexMatrix \<Rightarrow> ComplexMatrix \<Rightarrow> ComplexMatrix" where
  "madd A B = map2 (map2 (+)) A B"

definition msub :: "ComplexMatrix \<Rightarrow> ComplexMatrix \<Rightarrow> ComplexMatrix" where
  "msub A B = map2 (map2 (-)) A B"

definition smult :: "complex \<Rightarrow> ComplexMatrix \<Rightarrow> ComplexMatrix" where
  "smult c A = map (map ((*) c)) A"

text \<open>\<^verbatim>\<open>A.transpose()\<close>: rows and columns exchanged, no conjugation.\<close>

definition mtranspose :: "ComplexMatrix \<Rightarrow> ComplexMatrix" where
  "mtranspose A = map (\<lambda>j. map (\<lambda>r. r ! j) A) [0..<cols A]"

text \<open>\<^verbatim>\<open>A.adjoint()\<close>: the conjugate of the transpose.\<close>

definition adjoint :: "ComplexMatrix \<Rightarrow> ComplexMatrix" where
  "adjoint A = map (map cnj) (mtranspose A)"

text \<open>\<^verbatim>\<open>A * B\<close>: coefficient \<open>(i, j)\<close> is the sum over \<open>k\<close> of \<open>A(i, k) * B(k, j)\<close>.\<close>

definition mmul :: "ComplexMatrix \<Rightarrow> ComplexMatrix \<Rightarrow> ComplexMatrix" where
  "mmul A B =
     map (\<lambda>r. map (\<lambda>j. sum_list (map (\<lambda>k. r ! k * B ! k ! j) [0..<length r])) [0..<cols B]) A"

text \<open>\<^verbatim>\<open>v.asDiagonal()\<close> and \<^verbatim>\<open>A.diagonal()\<close>.\<close>

definition asDiagonal :: "ComplexVector \<Rightarrow> ComplexMatrix" where
  "asDiagonal v =
     map (\<lambda>i. map (\<lambda>j. if i = j then v ! i else 0) [0..<length v]) [0..<length v]"

definition diagonal :: "ComplexMatrix \<Rightarrow> ComplexVector" where
  "diagonal A = map (\<lambda>i. A ! i ! i) [0..<min (length A) (cols A)]"

text \<open>
  \<^verbatim>\<open>v.maxCoeff()\<close> and \<^verbatim>\<open>v.norm()\<close> of a \<^verbatim>\<open>DoubleVector\<close>. The library asserts that the
  vector searched for its largest coefficient is not empty.
\<close>

definition maxCoeff :: "DoubleVector \<Rightarrow> error + real" where
  "maxCoeff v = (case v of [] \<Rightarrow> Inl EigenAssert | x # xs \<Rightarrow> Inr (fold max xs x))"

definition vnorm :: "DoubleVector \<Rightarrow> real" where
  "vnorm v = sqrt (sum_list (map (\<lambda>x. x * x) v))"

text \<open>A matrix is symmetric when it is its own transpose, Hermitian when it is its own adjoint.\<close>

definition symmetric :: "nat \<Rightarrow> ComplexMatrix \<Rightarrow> bool" where
  "symmetric n A \<longleftrightarrow> (\<forall>i<n. \<forall>j<n. entry A i j = entry A j i)"

definition hermitian :: "nat \<Rightarrow> ComplexMatrix \<Rightarrow> bool" where
  "hermitian n A \<longleftrightarrow> (\<forall>i<n. \<forall>j<n. entry A i j = cnj (entry A j i))"

definition real_entries :: "nat \<Rightarrow> ComplexMatrix \<Rightarrow> bool" where
  "real_entries n A \<longleftrightarrow> (\<forall>i<n. \<forall>j<n. Im (entry A i j) = 0)"

section \<open>The solver and its collaborators (scf_solver/EnergyOptimizer.cpp)\<close>

text \<open>
  Orbital vectors, Fock operators and the Helmholtz vector are opaque: \<open>'ov\<close> is an
  \<^verbatim>\<open>OrbitalVector\<close>, \<open>'op\<close> a \<^verbatim>\<open>FockOperator\<close> with the state its \<^verbatim>\<open>setup\<close> and \<^verbatim>\<open>clear\<close> leave
  in it, \<open>'h\<close> the \<^verbatim>\<open>HelmholtzVector\<close>. Every function the solver calls on them is a field
  of the record below, with the arguments of the call site; a call that changes its
  argument in place returns the changed value.
\<close>

record ('ov, 'op, 'h) collab =
  orb_size :: int
  get_errors :: "'ov \<Rightarrow> DoubleVector"
  get_norms :: "'ov \<Rightarrow> DoubleVector"
  set_errors :: "'ov \<Rightarrow> DoubleVector \<Rightarrow> 'ov"
  reduce_vector :: "DoubleVector \<Rightarrow> DoubleVector"
  diagonalize :: "real \<Rightarrow> 'ov \<Rightarrow> ComplexMatrix \<Rightarrow> 'ov \<times> ComplexMatrix"
  localize :: "real \<Rightarrow> 'ov \<Rightarrow> ComplexMatrix \<times> 'ov"
  orthonormalize :: "real \<Rightarrow> 'ov \<Rightarrow> 'ov"
  calc_lowdin_matrix :: "'ov \<Rightarrow> ComplexMatrix"
  calc_overlap_matrix :: "'ov \<Rightarrow> 'ov \<Rightarrow> ComplexMatrix"
  multiply :: "ComplexMatrix \<Rightarrow> 'ov \<Rightarrow> real \<Rightarrow> 'ov"
  add :: "real \<Rightarrow> 'ov \<Rightarrow> real \<Rightarrow> 'ov \<Rightarrow> 'ov"
  free :: "'ov \<Rightarrow> 'ov"
  adjustPrecision :: "real \<Rightarrow> real \<Rightarrow> real"
  checkConvergence :: "real \<Rightarrow> real \<Rightarrow> bool"
  calcProperty :: "'op \<Rightarrow> 'ov \<Rightarrow> ComplexMatrix \<Rightarrow> real"
  calcPropertyError :: "real list \<Rightarrow> real"
  setupHelmholtzArguments :: "'op \<Rightarrow> ComplexMatrix \<Rightarrow> 'ov \<Rightarrow> 'ov"
  fock_setup :: "real \<Rightarrow> 'op \<Rightarrow> 'op"
  fock_clear :: "'op \<Rightarrow> 'op"
  jk_setup :: "real \<Rightarrow> 'ov \<Rightarrow> 'op \<Rightarrow> 'op"
  excl_nuc_clear :: "'op \<Rightarrow> 'op"
  nuclear :: "'op \<Rightarrow> 'ov \<Rightarrow> 'ov \<Rightarrow> ComplexMatrix"
  excl_nuc :: "'op \<Rightarrow> 'ov \<Rightarrow> 'ov \<Rightarrow> ComplexMatrix"
  H_setup :: "real \<Rightarrow> DoubleVector \<Rightarrow> 'h \<Rightarrow> 'h"
  H_apply :: "'h \<Rightarrow> 'ov \<Rightarrow> 'ov"
  H_clear :: "'h \<Rightarrow> 'h"
  getLambda :: "'h \<Rightarrow> DoubleVector"

text \<open>
  \<open>nuclear op bra ket\<close> is \<^verbatim>\<open>(*v)(bra, ket)\<close> for the nuclear operator \<^verbatim>\<open>v\<close> of \<open>op\<close>;
  \<open>excl_nuc op bra ket\<close> is \<^verbatim>\<open>FockOperator(0, 0, j, k, xc)(bra, ket)\<close> for the Coulomb,
  exchange and exchange-correlation operators of \<open>op\<close>; \<open>jk_setup prec phi op\<close> is
  \<^verbatim>\<open>j->setup(prec); k->setup(prec)\<close> on the operators of \<open>op\<close>, which read the orbitals
  \<open>phi\<close> they were built on; \<open>excl_nuc_clear\<close> is the \<^verbatim>\<open>clear()\<close> of that aggregate.
  \<open>adjustPrecision cur err\<close> is \<^verbatim>\<open>SCF::adjustPrecision(err)\<close> at the precision \<open>cur\<close> in
  force; its result is the precision in force afterwards, the one
  \<^verbatim>\<open>getOrbitalPrecision()\<close> reads.
\<close>

text \<open>
  The members of the solver that \<^verbatim>\<open>setup\<close> binds and \<^verbatim>\<open>optimize\<close> reads and writes. The
  pointer \<^verbatim>\<open>fOper_np1\<close> is the one the update tests against null, so it is optional here;
  the others are dereferenced without a test and are present. \<open>calls\<close> is the sequence
  of collaborator calls made so far, oldest first.
\<close>

datatype event =
    EvDiagonalize real
  | EvLocalize real
  | EvAdjustPrecision real
  | EvFockSetup real
  | EvCalcProperty
  | EvHelmholtzSetup real
  | EvHelmholtzArguments
  | EvHelmholtzApply
  | EvHelmholtzClear
  | EvFree string
  | EvAdd
  | EvGetNorms
  | EvReduceVector
  | EvSetErrors
  | EvCalcPropertyError
  | EvCheckConvergence bool
  | EvOverlap
  | EvNuclear
  | EvExclNuc
  | EvOrthonormalize real
  | EvJKSetup real
  | EvExclNucClear
  | EvFockClear
  | EvLowdin
  | EvMultiply real

record ('ov, 'op, 'h) solver =
  canonical :: bool
  maxIter :: int
  orbPrec :: real
  property :: "real list"
  orbError :: "real list"
  fMat_n :: ComplexMatrix
  fOper_n :: 'op
  fOper_np1 :: "'op option"
  orbitals_n :: 'ov
  orbitals_np1 :: 'ov
  helmholtz :: 'h
  calls :: "event list"

definition log_calls :: "event list \<Rightarrow> ('ov, 'op, 'h) solver \<Rightarrow> ('ov, 'op, 'h) solver" where
  "log_calls es s = s\<lparr>calls := calls s @ es\<rparr>"

text \<open>The calls of one Fock matrix update at precision \<open>p\<close>, in the order of the source.\<close>

definition update_calls :: "real \<Rightarrow> event list" where
  "update_calls p =
     [EvOverlap, EvOverlap, EvNuclear, EvExclNuc, EvOrthonormalize p, EvJKSetup p,
      EvExclNuc, EvExclNuc, EvExclNucClear, EvFree ''Phi_np1'', EvAdd]"

text \<open>
  \<^verbatim>\<open>EnergyOptimizer::calcFockMatrixUpdate(dPhi_n)\<close>. The commented-out distributed path is
  no part of the function. The result is the update \<^verbatim>\<open>dF_n\<close> and the solver after the
  call: \<^verbatim>\<open>Phi_np1\<close> is first orthonormalised in place, then freed and recomputed; the
  Coulomb and exchange operators of the n+1 Fock operator are set up and cleared.
\<close>

definition calcFockMatrixUpdate ::
  "('ov, 'op, 'h) collab \<Rightarrow> ('ov, 'op, 'h) solver \<Rightarrow> 'ov \<Rightarrow>
     error + ComplexMatrix \<times> ('ov, 'op, 'h) solver" where
  "calcFockMatrixUpdate env s dPhi_n =
     (case fOper_np1 s of
        None \<Rightarrow> Inl (Fatal ''Operator not initialized'')
      | Some op_np1 \<Rightarrow>
         (let prec = orbPrec s;
              Phi_n = orbitals_n s;
              Phi_np1 = orbitals_np1 s;
              dS_1 = calc_overlap_matrix env dPhi_n Phi_n;
              dS_2 = calc_overlap_matrix env Phi_np1 dPhi_n;
              dV_n = nuclear env (fOper_n s) Phi_np1 dPhi_n;
              F_n = excl_nuc env (fOper_n s) Phi_np1 Phi_n;
              Phi_np1 = orthonormalize env prec Phi_np1;
              op_np1 = jk_setup env prec Phi_np1 op_np1;
              F_1 = excl_nuc env op_np1 Phi_n Phi_n;
              F_2 = excl_nuc env op_np1 Phi_n dPhi_n;
              op_np1 = excl_nuc_clear env op_np1;
              F_np1 = madd (madd F_1 F_2) (mtranspose F_2);
              Phi_np1 = free env Phi_np1;
              Phi_np1 = add env 1 Phi_n 1 dPhi_n;
              L = asDiagonal (map complex_of_real (getLambda env (helmholtz s)));
              dF_1 = mmul dS_1 (fMat_n s);
              dF_2 = mmul dS_2 L;
              dF_3 = msub F_np1 F_n;
              dF_n = madd (madd (madd dV_n dF_1) dF_2) dF_3;
              sym = madd dF_n (mtranspose dF_n);
              dF_n = smult (1 / 2) sym
          in Inr (dF_n, log_calls (update_calls prec)
                          (s\<lparr>fOper_np1 := Some op_np1, orbitals_np1 := Phi_np1\<rparr>))))"

text \<open>
  The six matrices that the collaborators return during one update whose n+1 operator is
  \<open>op_np1\<close>, named as in the source: \<^verbatim>\<open>dS_1\<close>, \<^verbatim>\<open>dS_2\<close>, \<^verbatim>\<open>dV_n\<close>, \<^verbatim>\<open>F_n\<close>, \<^verbatim>\<open>F_1\<close>, \<^verbatim>\<open>F_2\<close>.
\<close>

definition update_terms ::
  "('ov, 'op, 'h) collab \<Rightarrow> ('ov, 'op, 'h) solver \<Rightarrow> 'ov \<Rightarrow> 'op \<Rightarrow>
     ComplexMatrix \<times> ComplexMatrix \<times> ComplexMatrix \<times> ComplexMatrix \<times> ComplexMatrix \<times> ComplexMatrix" where
  "update_terms env s dPhi_n op_np1 =
     (let Phi_n = orbitals_n s;
          Phi_np1 = orbitals_np1 s;
          op_np1 = jk_setup env (orbPrec s) (orthonormalize env (orbPrec s) Phi_np1) op_np1
      in (calc_overlap_matrix env dPhi_n Phi_n,
          calc_overlap_matrix env Phi_np1 dPhi_n,
          nuclear env (fOper_n s) Phi_np1 dPhi_n,
          excl_nuc env (fOper_n s) Phi_np1 Phi_n,
          excl_nuc env op_np1 Phi_n Phi_n,
          excl_nuc env op_np1 Phi_n dPhi_n))"

text \<open>
  The block that \<^verbatim>\<open>optimize\<close> runs once before and once after its loop: diagonalise in
  canonical mode, localise and rotate the Fock matrix otherwise.
\<close>

definition canonicalize ::
  "('ov, 'op, 'h) collab \<Rightarrow> real \<Rightarrow> ('ov, 'op, 'h) solver \<Rightarrow> ('ov, 'op, 'h) solver" where
  "canonicalize env prec s =
     (if canonical s then
        (let (Phi, F) = diagonalize env prec (orbitals_n s) (fMat_n s)
         in log_calls [EvDiagonalize prec] (s\<lparr>orbitals_n := Phi, fMat_n := F\<rparr>))
      else
        (let (U, Phi) = localize env prec (orbitals_n s)
         in log_calls [EvLocalize prec]
              (s\<lparr>orbitals_n := Phi, fMat_n := mmul (mmul U (fMat_n s)) (adjoint U)\<rparr>)))"

text \<open>The local variables of \<^verbatim>\<open>optimize\<close> that live across iterations.\<close>

record loopvars =
  nIter :: int
  converged :: bool
  orb_prec :: real
  err_o :: real
  err_t :: real
  err_p :: real

text \<open>
  The first half of the loop body, from \<^verbatim>\<open>adjustPrecision\<close> to \<^verbatim>\<open>set_errors\<close>: the working
  precision, the energy, the Helmholtz step, the orbital updates \<^verbatim>\<open>dPhi_n\<close> and their
  reduced norms \<^verbatim>\<open>errors\<close>. Printing and timing are left out.
\<close>

definition cycle_orbitals ::
  "('ov, 'op, 'h) collab \<Rightarrow> ('ov, 'op, 'h) solver \<Rightarrow> real \<Rightarrow>
     real \<times> 'ov \<times> DoubleVector \<times> ('ov, 'op, 'h) solver" where
  "cycle_orbitals env s err =
     (let p = adjustPrecision env (orbPrec s) err;
          s = log_calls [EvAdjustPrecision p] (s\<lparr>orbPrec := p\<rparr>);
          s = log_calls [EvFockSetup p] (s\<lparr>fOper_n := fock_setup env p (fOper_n s)\<rparr>);
          E = calcProperty env (fOper_n s) (orbitals_n s) (fMat_n s);
          s = log_calls [EvCalcProperty] (s\<lparr>property := property s @ [E]\<rparr>);
          s = log_calls [EvHelmholtzSetup p]
                (s\<lparr>helmholtz := H_setup env p (map Re (diagonal (fMat_n s))) (helmholtz s)\<rparr>);
          lambda = map complex_of_real (getLambda env (helmholtz s));
          L_n = asDiagonal lambda;
          Psi_n = setupHelmholtzArguments env (fOper_n s) (msub L_n (fMat_n s)) (orbitals_n s);
          s = log_calls [EvHelmholtzArguments, EvHelmholtzApply, EvFree ''Psi_n'']
                (s\<lparr>orbitals_np1 := H_apply env (helmholtz s) Psi_n\<rparr>);
          s = (if orb_size env > 1
               then log_calls [EvHelmholtzClear] (s\<lparr>helmholtz := H_clear env (helmholtz s)\<rparr>)
               else s);
          dPhi_n = add env 1 (orbitals_np1 s) (- 1) (orbitals_n s);
          errors = reduce_vector env (get_norms env dPhi_n);
          s = log_calls [EvAdd, EvGetNorms, EvReduceVector, EvSetErrors]
                (s\<lparr>orbitals_n := set_errors env (orbitals_n s) errors\<rparr>)
      in (p, dPhi_n, errors, s))"

text \<open>\<^verbatim>\<open>ComplexMatrix F_np1 = F_n + calcFockMatrixUpdate(dPhi_n)\<close>.\<close>

definition next_fock ::
  "('ov, 'op, 'h) collab \<Rightarrow> ('ov, 'op, 'h) solver \<Rightarrow> 'ov \<Rightarrow>
     error + ComplexMatrix \<times> ('ov, 'op, 'h) solver" where
  "next_fock env s dPhi_n =
     (case calcFockMatrixUpdate env s dPhi_n of
        Inl e \<Rightarrow> Inl e
      | Inr (dF, s') \<Rightarrow> Inr (madd (fMat_n s) dF, s'))"

text \<open>The calls that follow the update in every iteration, at working precision \<open>p\<close>.\<close>

definition rotate_calls :: "real \<Rightarrow> event list" where
  "rotate_calls p =
     [EvFree ''Phi_n'', EvFree ''dPhi_n'', EvFockClear, EvLowdin, EvMultiply p,
      EvFree ''Phi_np1'']"

text \<open>
  From \<^verbatim>\<open>orbital::free(Phi_n)\<close> to \<^verbatim>\<open>orbital::free(Phi_np1)\<close>: release the old orbitals and
  the updates, clear the Fock operator, rotate the new orbitals and the new Fock matrix
  by the Lowdin matrix.
\<close>

definition lowdin_rotate ::
  "('ov, 'op, 'h) collab \<Rightarrow> real \<Rightarrow> ComplexMatrix \<Rightarrow> ('ov, 'op, 'h) solver \<Rightarrow>
     ('ov, 'op, 'h) solver" where
  "lowdin_rotate env p F_np1 s =
     (let s = s\<lparr>orbitals_n := free env (orbitals_n s), fOper_n := fock_clear env (fOper_n s)\<rparr>;
          U = calc_lowdin_matrix env (orbitals_np1 s);
          s = s\<lparr>orbitals_n := multiply env U (orbitals_np1 s) p\<rparr>;
          s = s\<lparr>fMat_n := mmul (mmul U F_np1) (adjoint U)\<rparr>;
          s = s\<lparr>orbitals_np1 := free env (orbitals_np1 s)\<rparr>
      in log_calls (rotate_calls p) s)"

text \<open>
  One pass through the loop body, up to but not including \<^verbatim>\<open>if (converged) break\<close>. The
  convergence test is stored in \<open>converged\<close>; nothing in the body reads it.
\<close>

definition scf_cycle ::
  "('ov, 'op, 'h) collab \<Rightarrow> ('ov, 'op, 'h) solver \<Rightarrow> loopvars \<Rightarrow>
     error + loopvars \<times> ('ov, 'op, 'h) solver" where
  "scf_cycle env s v =
     (let (p, dPhi_n, errors, s) = cycle_orbitals env s (err_o v) in
      case maxCoeff errors of
        Inl e \<Rightarrow> Inl e
      | Inr eo \<Rightarrow>
         (let et = vnorm errors;
              ep = calcPropertyError env (property s);
              s = log_calls [EvCalcPropertyError] (s\<lparr>orbError := orbError s @ [et]\<rparr>);
              conv = checkConvergence env eo ep;
              s = log_calls [EvCheckConvergence conv] s
          in case next_fock env s dPhi_n of
               Inl e \<Rightarrow> Inl e
             | Inr (F_np1, s) \<Rightarrow>
                 Inr (v\<lparr>converged := conv, orb_prec := p, err_o := eo, err_t := et, err_p := ep\<rparr>,
                      lowdin_rotate env p F_np1 s)))"

text \<open>
  \<^verbatim>\<open>while (nIter++ < maxIter or maxIter < 0) { ...; if (converged) break; }\<close>. The loop
  may run for ever, so it takes fuel: one unit for each evaluation of the loop condition,
  and \<open>None\<close> when the fuel is used up. The counter is an \<^verbatim>\<open>int\<close>; it is compared with
  \<^verbatim>\<open>maxIter\<close> and printed, nothing else, and it stays below \<open>2 ^ 31\<close> in any run of fewer
  than that many cycles, so it is an integer here.
\<close>

fun scf_loop ::
  "nat \<Rightarrow> ('ov, 'op, 'h) collab \<Rightarrow> ('ov, 'op, 'h) solver \<Rightarrow> loopvars \<Rightarrow>
     (error + loopvars \<times> ('ov, 'op, 'h) solver) option" where
  "scf_loop 0 env s v = None"
| "scf_loop (Suc fuel) env s v =
     (let cond = (nIter v < maxIter s \<or> maxIter s < 0);
          v = v\<lparr>nIter := nIter v + 1\<rparr>
      in if \<not> cond then Some (Inr (v, s))
         else case scf_cycle env s v of
                Inl e \<Rightarrow> Some (Inl e)
              | Inr (v', s') \<Rightarrow>
                  if converged v' then Some (Inr (v', s')) else scf_loop fuel env s' v')"

text \<open>\<^verbatim>\<open>EnergyOptimizer::optimize()\<close>: the returned flag and the solver it leaves behind.\<close>

definition optimize ::
  "nat \<Rightarrow> ('ov, 'op, 'h) collab \<Rightarrow> ('ov, 'op, 'h) solver \<Rightarrow>
     (error + bool \<times> ('ov, 'op, 'h) solver) option" where
  "optimize fuel env s =
     (case maxCoeff (get_errors env (orbitals_n s)) of
        Inl e \<Rightarrow> Some (Inl e)
      | Inr eo \<Rightarrow>
         (let v = \<lparr>nIter = 0, converged = False, orb_prec = orbPrec s,
                   err_o = eo, err_t = 1, err_p = 1\<rparr>;
              s = canonicalize env (orb_prec v) s
          in case scf_loop fuel env s v of
               None \<Rightarrow> None
             | Some (Inl e) \<Rightarrow> Some (Inl e)
             | Some (Inr (v, s)) \<Rightarrow>
                 Some (Inr (converged v, canonicalize env (orb_prec v / 10) s))))"

text \<open>
  The loop variables that \<^verbatim>\<open>optimize\<close> enters its loop with, \<open>eo\<close> being the largest
  error stored on the orbitals; the outcome of the first \<open>k\<close> passes through the loop
  body, each entered with the counter incremented, whatever the convergence tests say;
  and the statement that the \<open>j\<close>-th pass returns with a convergence test that fails.
\<close>

definition start_vars :: "('ov, 'op, 'h) solver \<Rightarrow> real \<Rightarrow> loopvars" where
  "start_vars s eo =
     \<lparr>nIter = 0, converged = False, orb_prec = orbPrec s, err_o = eo, err_t = 1, err_p = 1\<rparr>"

fun cycles ::
  "nat \<Rightarrow> ('ov, 'op, 'h) collab \<Rightarrow> ('ov, 'op, 'h) solver \<Rightarrow> loopvars \<Rightarrow>
     error + loopvars \<times> ('ov, 'op, 'h) solver" where
  "cycles 0 env s v = Inr (v, s)"
| "cycles (Suc k) env s v =
     (case scf_cycle env s (v\<lparr>nIter := nIter v + 1\<rparr>) of
        Inl e \<Rightarrow> Inl e
      | Inr (v', s') \<Rightarrow> cycles k env s' v')"

definition unconverged_after ::
  "('ov, 'op, 'h) collab \<Rightarrow> ('ov, 'op, 'h) solver \<Rightarrow> loopvars \<Rightarrow> nat \<Rightarrow> bool" where
  "unconverged_after env s v j =
     (case cycles j env s v of Inl e \<Rightarrow> False | Inr (v', s') \<Rightarrow> \<not> converged v')"

text \<open>
  Reading the sequence of calls: which calls are a diagonalisation or a localisation, the
  call that the block before and after the loop makes in each mode, and the precision
  that the last \<^verbatim>\<open>adjustPrecision\<close> of a sequence returned (\<open>p\<close> when it has none).
\<close>

definition is_canonicalization :: "event \<Rightarrow> bool" where
  "is_canonicalization e = (case e of EvDiagonalize p \<Rightarrow> True | EvLocalize p \<Rightarrow> True | _ \<Rightarrow> False)"

definition canon_event :: "bool \<Rightarrow> real \<Rightarrow> event" where
  "canon_event c p = (if c then EvDiagonalize p else EvLocalize p)"

definition working_precision :: "real \<Rightarrow> event list \<Rightarrow> real" where
  "working_precision p es = fold (\<lambda>e q. case e of EvAdjustPrecision r \<Rightarrow> r | _ \<Rightarrow> q) es p"

section \<open>Precision schedule\<close>

text \<open>The configuration of the schedule: floor precision, starting precision, factor.\<close>

record precision_config =
  floor_prec :: real
  start_prec :: real
  factor :: real

text \<open>
  Modelled from the spec: \<^verbatim>\<open>SCF::adjustPrecision\<close>, a member of the base class of the solver
  that is not among the files at hand. The working precision follows the observed orbital
  error as \<open>max(floor, min(start, c * error))\<close> for the configured floor precision,
  starting precision and factor \<open>c\<close>.
\<close>

definition schedule :: "precision_config \<Rightarrow> real \<Rightarrow> real" where
  "schedule cfg error = max (floor_prec cfg) (min (start_prec cfg) (factor cfg * error))"

section \<open>A small instance of the collaborators\<close>

text \<open>
  An instance on which the solver can be run by hand. An orbital is one complex
  amplitude and an orbital vector a first amplitude with the list of the others, so that
  it is never empty. The overlap of two orbitals is the conjugate of the first times the
  second, the nuclear operator multiplies by the number the operator stands for, there is
  no two-electron part, the diagonalisation keeps the matrix and returns each orbital
  times the phase \<open>\<i>\<close>, the Helmholtz step takes the diagonal of the Fock matrix as its
  levels and returns its argument times the gain \<open>g\<close>, and the argument is the orbital
  plus the matrix applied to the orbitals. The convergence test \<open>cc\<close> is a parameter.
\<close>

type_synonym toy_orbitals = "complex \<times> complex list"

definition amps :: "toy_orbitals \<Rightarrow> complex list" where
  "amps Phi = fst Phi # snd Phi"

definition orbs :: "complex list \<Rightarrow> toy_orbitals" where
  "orbs zs = (case zs of [] \<Rightarrow> (0, []) | z # r \<Rightarrow> (z, r))"

definition toy_overlap :: "toy_orbitals \<Rightarrow> toy_orbitals \<Rightarrow> ComplexMatrix" where
  "toy_overlap bra ket = map (\<lambda>b. map (\<lambda>k. cnj b * k) (amps ket)) (amps bra)"

definition toy_apply :: "ComplexMatrix \<Rightarrow> toy_orbitals \<Rightarrow> toy_orbitals" where
  "toy_apply M Phi = orbs (map (\<lambda>r. sum_list (map2 (*) r (amps Phi))) M)"

definition toy ::
  "complex \<Rightarrow> (real \<Rightarrow> real \<Rightarrow> bool) \<Rightarrow> (toy_orbitals, complex, real list) collab" where
  "toy g cc = \<lparr>
     orb_size = 1,
     get_errors = (\<lambda>Phi. map (\<lambda>z. 1) (amps Phi)),
     get_norms = (\<lambda>Phi. map cmod (amps Phi)),
     set_errors = (\<lambda>Phi e. Phi),
     reduce_vector = (\<lambda>e. e),
     diagonalize = (\<lambda>p Phi F. (orbs (map ((*) \<i>) (amps Phi)), F)),
     localize = (\<lambda>p Phi. (asDiagonal (map (\<lambda>z. 1) (amps Phi)), Phi)),
     orthonormalize = (\<lambda>p Phi. orbs (map sgn (amps Phi))),
     calc_lowdin_matrix =
       (\<lambda>Phi. asDiagonal (map (\<lambda>z. 1 / complex_of_real (cmod z)) (amps Phi))),
     calc_overlap_matrix = toy_overlap,
     multiply = (\<lambda>U Phi p. toy_apply U Phi),
     add = (\<lambda>a x b y.
       orbs (map2 (\<lambda>u w. complex_of_real a * u + complex_of_real b * w) (amps x) (amps y))),
     free = (\<lambda>Phi. (0, [])),
     adjustPrecision =
       (\<lambda>cur err. schedule \<lparr>floor_prec = 1 / 1000000, start_prec = 1 / 1000, factor = 1 / 10\<rparr> err),
     checkConvergence = cc,
     calcProperty = (\<lambda>op Phi F. Re (sum_list (diagonal F))),
     calcPropertyError = (\<lambda>hist. case rev hist of a # b # r \<Rightarrow> a - b | _ \<Rightarrow> 1),
     setupHelmholtzArguments =
       (\<lambda>op M Phi. orbs (map2 (+) (amps Phi) (amps (toy_apply M Phi)))),
     fock_setup = (\<lambda>p op. op),
     fock_clear = (\<lambda>op. op),
     jk_setup = (\<lambda>p Phi op. op),
     excl_nuc_clear = (\<lambda>op. op),
     nuclear = (\<lambda>op bra ket. smult op (toy_overlap bra ket)),
     excl_nuc = (\<lambda>op bra ket. smult 0 (toy_overlap bra ket)),
     H_setup = (\<lambda>p d h. d),
     H_apply = (\<lambda>h Psi. orbs (map ((*) g) (amps Psi))),
     H_clear = (\<lambda>h. h),
     getLambda = (\<lambda>h. h)\<rparr>"

text \<open>The convergence test of the reference run: an orbital error below \<open>1/100\<close>.\<close>

definition toy_conv :: "real \<Rightarrow> real \<Rightarrow> bool" where
  "toy_conv eo ep \<longleftrightarrow> eo < 1 / 100"

text \<open>
  Solvers on that instance: \<open>toy_solver mx F op1 Phi Phi1 lam\<close> is a canonical-mode solver
  with iteration cap \<open>mx\<close>, Fock matrix \<open>F\<close>, the n+1 operator \<open>op1\<close>, orbitals \<open>Phi\<close>,
  provisional orbitals \<open>Phi1\<close> and Helmholtz levels \<open>lam\<close>, at precision \<open>1/1000\<close>.
\<close>

definition toy_solver ::
  "int \<Rightarrow> ComplexMatrix \<Rightarrow> complex option \<Rightarrow> toy_orbitals \<Rightarrow> toy_orbitals \<Rightarrow> real list \<Rightarrow>
     (toy_orbitals, complex, real list) solver" where
  "toy_solver mx F op1 Phi Phi1 lam =
     \<lparr>canonical = True, maxIter = mx, orbPrec = 1 / 1000, property = [], orbError = [],
      fMat_n = F, fOper_n = - 1, fOper_np1 = op1, orbitals_n = Phi, orbitals_np1 = Phi1,
      helmholtz = lam, calls = []\<rparr>"

text \<open>
  The calls of the first half of an iteration at precision \<open>p\<close> when the Helmholtz
  vector is not cleared.
\<close>

definition orbital_calls :: "real \<Rightarrow> event list" where
  "orbital_calls p =
     [EvAdjustPrecision p, EvFockSetup p, EvCalcProperty, EvHelmholtzSetup p,
      EvHelmholtzArguments, EvHelmholtzApply, EvFree ''Psi_n'',
      EvAdd, EvGetNorms, EvReduceVector, EvSetErrors, EvCalcPropertyError]"

section \<open>The Orbital constructor\<close>

text \<open>
  C9 (as amended). For every call \<open>Orbital(spin, occ, rank)\<close>: a negative spin aborts;
  otherwise the orbital is built with the given spin and rank, a non-negative occupation
  is kept, and a negative occupation becomes 2 for a paired, 1 for an alpha and 1 for a
  beta spin. The built orbital has a non-negative spin, and a non-negative occupation
  whenever the given occupation was non-negative or the spin is one of the three values
  of the enumeration.
\<close>

theorem Orbital_constructor:
  assumes "distinct [Paired S, Alpha S, Beta S]"
  shows "(sp < 0 \<longrightarrow> Orbital S sp oc rk = Inl InvalidArgAbort)
       \<and> (0 \<le> sp \<longrightarrow> (\<exists>d. Orbital S sp oc rk = Inr d \<and> spin d = sp \<and> rank_id d = rk \<and> 0 \<le> spin d
              \<and> (0 \<le> oc \<longrightarrow> occ d = oc)
              \<and> (oc < 0 \<and> sp = Paired S \<longrightarrow> occ d = 2)
              \<and> (oc < 0 \<and> sp = Alpha S \<longrightarrow> occ d = 1)
              \<and> (oc < 0 \<and> sp = Beta S \<longrightarrow> occ d = 1)
              \<and> (0 \<le> oc \<or> sp \<in> {Paired S, Alpha S, Beta S} \<longrightarrow> 0 \<le> occ d)))"
  using assms by (auto simp: Orbital_def Let_def)

theorem Orbital_constructor_witness:
  "distinct [Paired SPIN_enum, Alpha SPIN_enum, Beta SPIN_enum]
   \<and> Orbital SPIN_enum 0 (- 1) 3 = Inr \<lparr>rank_id = 3, spin = 0, occ = 2\<rparr>
   \<and> Orbital SPIN_enum 1 (- 1) 3 = Inr \<lparr>rank_id = 3, spin = 1, occ = 1\<rparr>
   \<and> Orbital SPIN_enum 2 (- 1) 3 = Inr \<lparr>rank_id = 3, spin = 2, occ = 1\<rparr>
   \<and> Orbital SPIN_enum 2 (1 / 2) 3 = Inr \<lparr>rank_id = 3, spin = 2, occ = 1 / 2\<rparr>
   \<and> Orbital SPIN_enum (- 1) 2 3 = Inl InvalidArgAbort"
proof -
  have d: "distinct [Paired SPIN_enum, Alpha SPIN_enum, Beta SPIN_enum]"
    by (simp add: SPIN_enum_def)
  have v: "Paired SPIN_enum = 0" "Alpha SPIN_enum = 1" "Beta SPIN_enum = 2"
    by (simp_all add: SPIN_enum_def)
  show ?thesis
    using d Orbital_constructor [OF d, of 0 "- 1" 3] Orbital_constructor [OF d, of 1 "- 1" 3]
      Orbital_constructor [OF d, of 2 "- 1" 3] Orbital_constructor [OF d, of 2 "1 / 2" 3]
      Orbital_constructor [OF d, of "- 1" 2 3]
    by (auto simp: v)
qed

text \<open>
  The claim as stated fails where the spin is none of the three: the constructor returns
  an orbital whose occupation is still negative.
\<close>

theorem Orbital_negative_occupation:
  "Orbital SPIN_enum 7 (- 1) 0 = Inr \<lparr>rank_id = 0, spin = 7, occ = - 1\<rparr>
   \<and> \<not> 0 \<le> occ \<lparr>rank_id = 0, spin = 7, occ = - 1\<rparr>"
  by (simp add: Orbital_def SPIN_enum_def)

section \<open>The precision schedule\<close>

text \<open>
  C5. With a floor no larger than the starting precision and a non-negative factor, the
  schedule is monotone in the orbital error (a smaller error never gives a larger
  precision value) and every precision it returns lies between the floor and the
  starting precision.
\<close>

theorem schedule_monotone_bounded:
  assumes "floor_prec cfg \<le> start_prec cfg" and "0 \<le> factor cfg"
  shows "(e1 < e2 \<longrightarrow> schedule cfg e1 \<le> schedule cfg e2)
       \<and> floor_prec cfg \<le> schedule cfg e \<and> schedule cfg e \<le> start_prec cfg"
proof -
  have "e1 < e2 \<Longrightarrow> factor cfg * e1 \<le> factor cfg * e2"
    using assms(2) by (simp add: mult_left_mono)
  then show ?thesis using assms(1) by (auto simp: schedule_def)
qed

theorem schedule_monotone_bounded_witness:
  "floor_prec \<lparr>floor_prec = 1 / 1000000, start_prec = 1 / 1000, factor = 1 / 10\<rparr>
     \<le> start_prec \<lparr>floor_prec = 1 / 1000000, start_prec = 1 / 1000, factor = 1 / 10\<rparr>
   \<and> 0 \<le> factor \<lparr>floor_prec = 1 / 1000000, start_prec = 1 / 1000, factor = 1 / 10\<rparr>
   \<and> (1 / 1000 :: real) < 1 / 100
   \<and> schedule \<lparr>floor_prec = 1 / 1000000, start_prec = 1 / 1000, factor = 1 / 10\<rparr> (1 / 1000)
        \<le> schedule \<lparr>floor_prec = 1 / 1000000, start_prec = 1 / 1000, factor = 1 / 10\<rparr> (1 / 100)
   \<and> 1 / 1000000 \<le> schedule \<lparr>floor_prec = 1 / 1000000, start_prec = 1 / 1000, factor = 1 / 10\<rparr> 5
   \<and> schedule \<lparr>floor_prec = 1 / 1000000, start_prec = 1 / 1000, factor = 1 / 10\<rparr> 5 \<le> 1 / 1000"
  using schedule_monotone_bounded
    [of "\<lparr>floor_prec = 1 / 1000000, start_prec = 1 / 1000, factor = 1 / 10\<rparr>" "1 / 1000" "1 / 100" 5]
  by simp

section \<open>Matrix entries\<close>

lemma square_row: "square n A \<Longrightarrow> i < n \<Longrightarrow> length (A ! i) = n"
  by (simp add: square_def list_all_length)

lemma square_cols: "square n A \<Longrightarrow> cols A = n"
  by (cases A) (auto simp: square_def cols_def)

lemma squareI: "length A = n \<Longrightarrow> (\<And>i. i < n \<Longrightarrow> length (A ! i) = n) \<Longrightarrow> square n A"
  by (simp add: square_def list_all_length)

lemma square_madd: "square n A \<Longrightarrow> square n B \<Longrightarrow> square n (madd A B)"
  by (rule squareI) (simp_all add: madd_def square_def list_all_length)

lemma entry_madd:
  "square n A \<Longrightarrow> square n B \<Longrightarrow> i < n \<Longrightarrow> j < n \<Longrightarrow>
     entry (madd A B) i j = entry A i j + entry B i j"
  by (simp add: madd_def entry_def square_def list_all_length)

lemma square_msub: "square n A \<Longrightarrow> square n B \<Longrightarrow> square n (msub A B)"
  by (rule squareI) (simp_all add: msub_def square_def list_all_length)

lemma entry_msub:
  "square n A \<Longrightarrow> square n B \<Longrightarrow> i < n \<Longrightarrow> j < n \<Longrightarrow>
     entry (msub A B) i j = entry A i j - entry B i j"
  by (simp add: msub_def entry_def square_def list_all_length)

lemma square_smult: "square n A \<Longrightarrow> square n (smult c A)"
  by (rule squareI) (simp_all add: smult_def square_def list_all_length)

lemma entry_smult:
  "square n A \<Longrightarrow> i < n \<Longrightarrow> j < n \<Longrightarrow> entry (smult c A) i j = c * entry A i j"
  by (simp add: smult_def entry_def square_def list_all_length)

lemma square_mtranspose: "square n A \<Longrightarrow> square n (mtranspose A)"
  by (rule squareI) (simp_all add: mtranspose_def square_cols, simp add: square_def)

lemma entry_mtranspose:
  "square n A \<Longrightarrow> i < n \<Longrightarrow> j < n \<Longrightarrow> entry (mtranspose A) i j = entry A j i"
  by (simp add: mtranspose_def entry_def square_cols) (simp add: square_def)

lemma square_mmul:
  assumes "square n A" "square n B"
  shows "square n (mmul A B)"
proof (rule squareI)
  show "length (mmul A B) = n" using assms(1) by (simp add: mmul_def square_def)
next
  fix i assume "i < n"
  then have "i < length A" using assms(1) by (simp add: square_def)
  then show "length (mmul A B ! i) = n"
    by (simp add: mmul_def square_cols [OF assms(2)])
qed

lemma entry_mmul:
  assumes "square n A" "square n B" "i < n" "j < n"
  shows "entry (mmul A B) i j = (\<Sum>k<n. entry A i k * entry B k j)"
proof -
  have "length A = n" using assms(1) by (simp add: square_def)
  moreover have "length (A ! i) = n" using assms(1,3) by (rule square_row)
  ultimately show ?thesis
    using assms(3,4)
    by (simp add: mmul_def entry_def square_cols [OF assms(2)]
        interv_sum_list_conv_sum_set_nat atLeast0LessThan)
qed

lemma square_asDiagonal: "length v = n \<Longrightarrow> square n (asDiagonal v)"
  by (rule squareI) (simp_all add: asDiagonal_def)

lemma entry_asDiagonal:
  "length v = n \<Longrightarrow> i < n \<Longrightarrow> j < n \<Longrightarrow> entry (asDiagonal v) i j = (if i = j then v ! i else 0)"
  by (simp add: asDiagonal_def entry_def)

lemma entry_mmul_diag:
  assumes "square n A" "length v = n" "i < n" "j < n"
  shows "entry (mmul A (asDiagonal v)) i j = entry A i j * v ! j"
proof -
  have "entry (mmul A (asDiagonal v)) i j = (\<Sum>k<n. entry A i k * entry (asDiagonal v) k j)"
    using assms by (simp add: entry_mmul square_asDiagonal)
  also have "\<dots> = (\<Sum>k<n. if k = j then entry A i j * v ! j else 0)"
    using assms by (intro sum.cong) (auto simp: entry_asDiagonal)
  also have "\<dots> = entry A i j * v ! j"
    using assms(4) by simp
  finally show ?thesis .
qed

lemma matrix_eqI:
  assumes "square n A" "square n B" "\<And>i j. i < n \<Longrightarrow> j < n \<Longrightarrow> entry A i j = entry B i j"
  shows "A = B"
proof (rule nth_equalityI)
  show "length A = length B" using assms(1,2) by (simp add: square_def)
next
  fix i assume "i < length A"
  then have i: "i < n" using assms(1) by (simp add: square_def)
  show "A ! i = B ! i"
  proof (rule nth_equalityI)
    show "length (A ! i) = length (B ! i)" using assms(1,2) i by (simp add: square_row)
  next
    fix j assume "j < length (A ! i)"
    then have "j < n" using assms(1) i by (simp add: square_row)
    then show "A ! i ! j = B ! i ! j" using assms(3) [OF i] by (simp add: entry_def)
  qed
qed

section \<open>The Fock matrix update\<close>

lemma calcFockMatrixUpdate_value:
  assumes "fOper_np1 s = Some op"
    and "update_terms env s dPhi op = (dS_1, dS_2, dV_n, F_n, F_1, F_2)"
  shows "calcFockMatrixUpdate env s dPhi =
    Inr (smult (1 / 2)
          (madd (madd (madd (madd dV_n (mmul dS_1 (fMat_n s)))
                        (mmul dS_2 (asDiagonal (map complex_of_real (getLambda env (helmholtz s))))))
                   (msub (madd (madd F_1 F_2) (mtranspose F_2)) F_n))
             (mtranspose (madd (madd (madd dV_n (mmul dS_1 (fMat_n s)))
                        (mmul dS_2 (asDiagonal (map complex_of_real (getLambda env (helmholtz s))))))
                   (msub (madd (madd F_1 F_2) (mtranspose F_2)) F_n)))),
         log_calls (update_calls (orbPrec s))
           (s\<lparr>fOper_np1 := Some (excl_nuc_clear env
                  (jk_setup env (orbPrec s) (orthonormalize env (orbPrec s) (orbitals_np1 s)) op)),
              orbitals_np1 := add env 1 (orbitals_n s) 1 dPhi\<rparr>))"
  using assms by (simp add: calcFockMatrixUpdate_def update_terms_def Let_def)

lemma square_update_sum:
  assumes "list_all (square n) [F, dS_1, dS_2, dV_n, F_n, F_1, F_2]" and "length lam = n"
  shows "square n (madd (madd (madd dV_n (mmul dS_1 F)) (mmul dS_2 (asDiagonal lam)))
                   (msub (madd (madd F_1 F_2) (mtranspose F_2)) F_n))"
  using assms
  by (simp add: square_madd square_msub square_mmul square_mtranspose square_asDiagonal)

lemma entry_update_sum:
  assumes "list_all (square n) [F, dS_1, dS_2, dV_n, F_n, F_1, F_2]" and "length lam = n"
    and "i < n" "j < n"
  shows "entry (madd (madd (madd dV_n (mmul dS_1 F)) (mmul dS_2 (asDiagonal lam)))
                   (msub (madd (madd F_1 F_2) (mtranspose F_2)) F_n)) i j
       = entry dV_n i j + (\<Sum>k<n. entry dS_1 i k * entry F k j) + entry dS_2 i j * lam ! j
         + (entry F_1 i j + entry F_2 i j + entry F_2 j i - entry F_n i j)"
proof -
  have sq: "square n F" "square n dS_1" "square n dS_2" "square n dV_n" "square n F_n"
    "square n F_1" "square n F_2"
    using assms(1) by simp_all
  note ij = assms(3,4)
  have a: "square n (mmul dS_1 F)" using sq by (simp add: square_mmul)
  have b: "square n (mmul dS_2 (asDiagonal lam))"
    using sq assms(2) by (simp add: square_mmul square_asDiagonal)
  have c: "square n (madd dV_n (mmul dS_1 F))" using sq a by (simp add: square_madd)
  have d: "square n (madd (madd dV_n (mmul dS_1 F)) (mmul dS_2 (asDiagonal lam)))"
    using b c by (simp add: square_madd)
  have e: "square n (mtranspose F_2)" using sq by (simp add: square_mtranspose)
  have f: "square n (madd F_1 F_2)" using sq by (simp add: square_madd)
  have g: "square n (madd (madd F_1 F_2) (mtranspose F_2))" using e f by (simp add: square_madd)
  have h: "square n (msub (madd (madd F_1 F_2) (mtranspose F_2)) F_n)"
    using g sq by (simp add: square_msub)
  show ?thesis
    by (simp add: entry_madd [OF d h ij] entry_madd [OF c b ij] entry_madd [OF sq(4) a ij]
        entry_mmul [OF sq(2) sq(1) ij] entry_mmul_diag [OF sq(3) assms(2) ij]
        entry_msub [OF g sq(5) ij] entry_madd [OF f e ij] entry_madd [OF sq(6) sq(7) ij]
        entry_mtranspose [OF sq(7) ij])
qed

lemma entry_symmetrized:
  assumes "square n D" "i < n" "j < n"
  shows "entry (smult (1 / 2) (madd D (mtranspose D))) i j = (entry D i j + entry D j i) / 2"
proof -
  have t: "square n (mtranspose D)" using assms(1) by (rule square_mtranspose)
  have m: "square n (madd D (mtranspose D))" using assms(1) t by (rule square_madd)
  show ?thesis
    by (simp add: entry_smult [OF m assms(2,3)] entry_madd [OF assms(1) t assms(2,3)]
        entry_mtranspose [OF assms(1) assms(2,3)])
qed

text \<open>
  C1. When the n+1 operator is set and the matrices of the update are square of the
  orbital count, the update returns the symmetrisation of the sum \<open>D\<close> of the nuclear
  matrix \<open>dV_n\<close> between the new and the delta orbitals, the products \<open>dS_1 * F_old\<close>
  and \<open>dS_2 * L\<close> (\<open>L\<close> the diagonal matrix of the Helmholtz levels), and the
  difference of \<open>F_1 + F_2 + F_2\<^sup>t\<close> and \<open>F_n\<close>; the caller adds it to the old
  Fock matrix. Entry by entry: \<open>F_next(i, j) = F_old(i, j) + (D(i, j) + D(j, i)) / 2\<close>.
\<close>

theorem next_fock_additive:
  assumes "fOper_np1 s = Some op"
    and "update_terms env s dPhi op = (dS_1, dS_2, dV_n, F_n, F_1, F_2)"
    and "list_all (square n) [fMat_n s, dS_1, dS_2, dV_n, F_n, F_1, F_2]"
    and "length (getLambda env (helmholtz s)) = n"
    and "D = madd (madd (madd dV_n (mmul dS_1 (fMat_n s)))
                    (mmul dS_2 (asDiagonal (map complex_of_real (getLambda env (helmholtz s))))))
               (msub (madd (madd F_1 F_2) (mtranspose F_2)) F_n)"
  shows "\<exists>s'. calcFockMatrixUpdate env s dPhi = Inr (smult (1 / 2) (madd D (mtranspose D)), s')
           \<and> next_fock env s dPhi = Inr (madd (fMat_n s) (smult (1 / 2) (madd D (mtranspose D))), s')
           \<and> (\<forall>i<n. \<forall>j<n.
                entry (madd (fMat_n s) (smult (1 / 2) (madd D (mtranspose D)))) i j
                  = entry (fMat_n s) i j + (entry D i j + entry D j i) / 2
              \<and> entry D i j
                  = entry dV_n i j + (\<Sum>k<n. entry dS_1 i k * entry (fMat_n s) k j)
                    + entry dS_2 i j * complex_of_real (getLambda env (helmholtz s) ! j)
                    + (entry F_1 i j + entry F_2 i j + entry F_2 j i - entry F_n i j))"
proof -
  let ?lam = "map complex_of_real (getLambda env (helmholtz s))"
  have len: "length ?lam = n" using assms(4) by simp
  have sqD: "square n D"
    unfolding assms(5) using assms(3) len by (rule square_update_sum)
  have sqF: "square n (fMat_n s)" using assms(3) by simp
  have sqS: "square n (smult (1 / 2) (madd D (mtranspose D)))"
    using sqD by (simp add: square_smult square_madd square_mtranspose)
  have val: "calcFockMatrixUpdate env s dPhi =
      Inr (smult (1 / 2) (madd D (mtranspose D)),
           log_calls (update_calls (orbPrec s))
             (s\<lparr>fOper_np1 := Some (excl_nuc_clear env
                    (jk_setup env (orbPrec s) (orthonormalize env (orbPrec s) (orbitals_np1 s)) op)),
                orbitals_np1 := add env 1 (orbitals_n s) 1 dPhi\<rparr>))"
    unfolding assms(5) using assms(1,2) by (rule calcFockMatrixUpdate_value)
  have ent: "entry (madd (fMat_n s) (smult (1 / 2) (madd D (mtranspose D)))) i j
                  = entry (fMat_n s) i j + (entry D i j + entry D j i) / 2"
    if "i < n" "j < n" for i j
    by (simp add: entry_madd [OF sqF sqS that] entry_symmetrized [OF sqD that])
  have entD: "entry D i j
                  = entry dV_n i j + (\<Sum>k<n. entry dS_1 i k * entry (fMat_n s) k j)
                    + entry dS_2 i j * complex_of_real (getLambda env (helmholtz s) ! j)
                    + (entry F_1 i j + entry F_2 i j + entry F_2 j i - entry F_n i j)"
    if "i < n" "j < n" for i j
    unfolding assms(5) using entry_update_sum [OF assms(3) len that] that assms(4) by simp
  show ?thesis
    using val ent entD by (simp add: next_fock_def)
qed

lemma toy_next_fock_complex:
  "map_sum id fst (next_fock (toy 1 toy_conv) (toy_solver 5 [[- 1]] (Some (- 1)) (1, []) (1 + \<i>, []) [- 1]) (\<i>, []))
     = Inr [[- 3 - \<i>]]"
  by (simp add: next_fock_def calcFockMatrixUpdate_def toy_def toy_solver_def toy_overlap_def
      amps_def orbs_def madd_def mmul_def msub_def smult_def mtranspose_def asDiagonal_def cols_def Let_def
      algebra_simps)

lemma hermitian_1: "hermitian (Suc 0) [[z]] \<longleftrightarrow> Im z = 0"
  by (auto simp: hermitian_def entry_def complex_eq_iff)

text \<open>
  C2. The Fock matrix that the update produces from a Hermitian one is not Hermitian
  when entries have an imaginary part: the update averages with the transpose, which
  does not conjugate, where the rotation of the same matrix in \<^verbatim>\<open>optimize\<close> uses the
  adjoint. One orbital, old amplitude 1, new amplitude \<open>1 + \<i>\<close>, old Fock matrix
  \<open>-1\<close>: the old matrix is Hermitian, the next one is \<open>-3 - \<i>\<close>.
\<close>

theorem symmetrized_not_hermitian:
  "hermitian 1 (fMat_n (toy_solver 5 [[- 1]] (Some (- 1)) (1, []) (1 + \<i>, []) [- 1]))
   \<and> map_sum id fst (next_fock (toy 1 toy_conv) (toy_solver 5 [[- 1]] (Some (- 1)) (1, []) (1 + \<i>, []) [- 1]) (\<i>, []))
       = Inr [[- 3 - \<i>]]
   \<and> \<not> hermitian 1 [[- 3 - \<i>]]"
  using toy_next_fock_complex by (simp add: hermitian_1 toy_solver_def)

text \<open>The same on the single entry of the two matrices.\<close>

theorem symmetrized_not_hermitian_witness:
  "entry (fMat_n (toy_solver 5 [[- 1]] (Some (- 1)) (1, []) (1 + \<i>, []) [- 1])) 0 0
     = cnj (entry (fMat_n (toy_solver 5 [[- 1]] (Some (- 1)) (1, []) (1 + \<i>, []) [- 1])) 0 0)
   \<and> map_sum id fst (next_fock (toy 1 toy_conv) (toy_solver 5 [[- 1]] (Some (- 1)) (1, []) (1 + \<i>, []) [- 1]) (\<i>, []))
       = Inr [[- 3 - \<i>]]
   \<and> entry [[- 3 - \<i>]] 0 0 \<noteq> cnj (entry [[- 3 - \<i>]] 0 0)"
  using symmetrized_not_hermitian unfolding hermitian_def by simp

text \<open>
  What the last step of the update does give: the update that is returned is the average
  of itself and its transpose, so it is symmetric; the next Fock matrix is symmetric
  whenever the old one is, and Hermitian whenever the old one is Hermitian and the update
  has real entries.
\<close>

lemma update_symmetric:
  assumes "fOper_np1 s = Some op"
    and "update_terms env s dPhi op = (dS_1, dS_2, dV_n, F_n, F_1, F_2)"
    and "list_all (square n) [fMat_n s, dS_1, dS_2, dV_n, F_n, F_1, F_2]"
    and "length (getLambda env (helmholtz s)) = n"
    and "D = madd (madd (madd dV_n (mmul dS_1 (fMat_n s)))
                    (mmul dS_2 (asDiagonal (map complex_of_real (getLambda env (helmholtz s))))))
               (msub (madd (madd F_1 F_2) (mtranspose F_2)) F_n)"
    and "dF = smult (1 / 2) (madd D (mtranspose D))"
  shows "(\<exists>s'. calcFockMatrixUpdate env s dPhi = Inr (dF, s'))
       \<and> dF = smult (1 / 2) (madd dF (mtranspose dF))
       \<and> symmetric n dF
       \<and> (symmetric n (fMat_n s) \<longrightarrow> symmetric n (madd (fMat_n s) dF))
       \<and> (hermitian n (fMat_n s) \<and> real_entries n dF \<longrightarrow> hermitian n (madd (fMat_n s) dF))"
proof -
  let ?lam = "map complex_of_real (getLambda env (helmholtz s))"
  have len: "length ?lam = n" using assms(4) by simp
  have sqD: "square n D"
    unfolding assms(5) using assms(3) len by (rule square_update_sum)
  have sqF: "square n (fMat_n s)" using assms(3) by simp
  have sqS: "square n dF"
    unfolding assms(6) using sqD by (simp add: square_smult square_madd square_mtranspose)
  have ent: "entry dF i j = (entry D i j + entry D j i) / 2" if "i < n" "j < n" for i j
    unfolding assms(6) using sqD that by (rule entry_symmetrized)
  have sym: "entry dF i j = entry dF j i" if "i < n" "j < n" for i j
    unfolding ent [OF that] ent [OF that(2,1)] by (simp add: add.commute)
  have avg: "entry (smult (1 / 2) (madd dF (mtranspose dF))) i j = entry dF i j"
    if "i < n" "j < n" for i j
    using entry_symmetrized [OF sqS that] sym [OF that] by simp
  have 1: "\<exists>s'. calcFockMatrixUpdate env s dPhi = Inr (dF, s')"
    unfolding assms(5,6) using calcFockMatrixUpdate_value [OF assms(1,2)] by simp
  have 2: "dF = smult (1 / 2) (madd dF (mtranspose dF))"
  proof (rule matrix_eqI [OF sqS])
    show "square n (smult (1 / 2) (madd dF (mtranspose dF)))"
      using sqS by (simp add: square_smult square_madd square_mtranspose)
  qed (simp add: avg)
  have 3: "symmetric n dF" using sym by (simp add: symmetric_def)
  have plus: "entry (madd (fMat_n s) dF) i j = entry (fMat_n s) i j + entry dF i j"
    if "i < n" "j < n" for i j
    using sqF sqS that by (rule entry_madd)
  have 4: "symmetric n (madd (fMat_n s) dF)" if "symmetric n (fMat_n s)"
    unfolding symmetric_def
  proof (intro allI impI)
    fix i j assume ij: "i < n" "j < n"
    have "entry (fMat_n s) i j = entry (fMat_n s) j i"
      using that ij unfolding symmetric_def by blast
    then show "entry (madd (fMat_n s) dF) i j = entry (madd (fMat_n s) dF) j i"
      unfolding plus [OF ij] plus [OF ij(2,1)] using sym [OF ij] by simp
  qed
  have 5: "hermitian n (madd (fMat_n s) dF)" if "hermitian n (fMat_n s)" "real_entries n dF"
    unfolding hermitian_def
  proof (intro allI impI)
    fix i j assume ij: "i < n" "j < n"
    have "cnj (entry dF j i) = entry dF j i"
      using that(2) ij by (simp add: real_entries_def complex_eq_iff)
    moreover have "entry (fMat_n s) i j = cnj (entry (fMat_n s) j i)"
      using that(1) ij unfolding hermitian_def by blast
    ultimately show "entry (madd (fMat_n s) dF) i j = cnj (entry (madd (fMat_n s) dF) j i)"
      unfolding plus [OF ij] plus [OF ij(2,1)] sym [OF ij] by simp
  qed
  show ?thesis using 1 2 3 4 5 by blast
qed

text \<open>
  C10. When the update returns, the provisional orbitals are the sum of the old orbitals
  and the delta orbitals, not the orthonormalised set, and the old orbitals are
  untouched; when the delta orbitals are the difference of the provisional and the old
  orbitals and the sum undoes the difference, the caller finds the provisional orbitals
  it passed in.
\<close>

theorem calcFockMatrixUpdate_restores_orbitals:
  assumes "calcFockMatrixUpdate env s dPhi = Inr (dF, s')"
  shows "orbitals_np1 s' = add env 1 (orbitals_n s) 1 dPhi
       \<and> orbitals_n s' = orbitals_n s
       \<and> (dPhi = add env 1 (orbitals_np1 s) (- 1) (orbitals_n s)
            \<and> add env 1 (orbitals_n s) 1 (add env 1 (orbitals_np1 s) (- 1) (orbitals_n s)) = orbitals_np1 s
          \<longrightarrow> orbitals_np1 s' = orbitals_np1 s)"
  using assms
  by (auto simp: calcFockMatrixUpdate_def Let_def log_calls_def split: option.splits)

section \<open>One iteration\<close>

lemma cycle_orbitals_case:
  "case cycle_orbitals env s e of (p, d, errs, s1) \<Rightarrow>
     fOper_np1 s1 = fOper_np1 s \<and> maxIter s1 = maxIter s \<and> canonical s1 = canonical s
     \<and> orbPrec s1 = p \<and> orbError s1 = orbError s
     \<and> property s1 = property s @ [calcProperty env (fock_setup env p (fOper_n s)) (orbitals_n s) (fMat_n s)]
     \<and> errs = reduce_vector env (get_norms env d)
     \<and> p = adjustPrecision env (orbPrec s) e
     \<and> (\<exists>es. calls s1 = calls s @ EvAdjustPrecision p # es
          \<and> list_all (\<lambda>e. \<not> is_canonicalization e) es \<and> (\<forall>q. working_precision q es = q))"
  by (simp add: cycle_orbitals_def Let_def log_calls_def is_canonicalization_def
      working_precision_def)

lemma cycle_orbitals_frame:
  assumes "cycle_orbitals env s e = (p, d, errs, s1)"
  shows "fOper_np1 s1 = fOper_np1 s" "maxIter s1 = maxIter s" "canonical s1 = canonical s"
    "orbPrec s1 = p" "orbError s1 = orbError s"
    "length (property s1) = Suc (length (property s))"
    "errs = reduce_vector env (get_norms env d)"
    "p = adjustPrecision env (orbPrec s) e"
    "\<exists>es. calls s1 = calls s @ EvAdjustPrecision p # es
        \<and> list_all (\<lambda>e. \<not> is_canonicalization e) es \<and> (\<forall>q. working_precision q es = q)"
  using cycle_orbitals_case [where env = env and s = s and e = e] assms by auto

lemma calcFockMatrixUpdate_frame:
  assumes "calcFockMatrixUpdate env s d = Inr (dF, s1)"
  shows "fOper_np1 s1 \<noteq> None" "maxIter s1 = maxIter s" "canonical s1 = canonical s"
    "orbPrec s1 = orbPrec s" "orbError s1 = orbError s" "property s1 = property s"
    "fMat_n s1 = fMat_n s" "orbitals_n s1 = orbitals_n s" "helmholtz s1 = helmholtz s"
    "calls s1 = calls s @ update_calls (orbPrec s)"
  using assms
  by (auto simp: calcFockMatrixUpdate_def Let_def log_calls_def split: option.splits)

lemma calcFockMatrixUpdate_total:
  assumes "fOper_np1 s = Some op"
  shows "\<exists>dF s1. calcFockMatrixUpdate env s d = Inr (dF, s1)"
  using assms by (simp add: calcFockMatrixUpdate_def Let_def)

lemma calcFockMatrixUpdate_fatal:
  assumes "fOper_np1 s = None"
  shows "calcFockMatrixUpdate env s d = Inl (Fatal ''Operator not initialized'')"
  using assms by (simp add: calcFockMatrixUpdate_def)

lemma rotate_frame:
  "fOper_np1 (lowdin_rotate env p F s) = fOper_np1 s" "maxIter (lowdin_rotate env p F s) = maxIter s"
  "canonical (lowdin_rotate env p F s) = canonical s" "orbPrec (lowdin_rotate env p F s) = orbPrec s"
  "orbError (lowdin_rotate env p F s) = orbError s" "property (lowdin_rotate env p F s) = property s"
  "calls (lowdin_rotate env p F s) = calls s @ rotate_calls p"
  "fMat_n (lowdin_rotate env p F s)
     = mmul (mmul (calc_lowdin_matrix env (orbitals_np1 s)) F)
         (adjoint (calc_lowdin_matrix env (orbitals_np1 s)))"
  "orbitals_n (lowdin_rotate env p F s)
     = multiply env (calc_lowdin_matrix env (orbitals_np1 s)) (orbitals_np1 s) p"
  by (simp_all add: lowdin_rotate_def Let_def log_calls_def)

text \<open>What one pass through the loop body does, when it returns.\<close>

lemma scf_cycle_Inr:
  assumes "scf_cycle env s v = Inr (v', s')"
  obtains p d errs s1 eo dF s2 where
    "cycle_orbitals env s (err_o v) = (p, d, errs, s1)"
    "maxCoeff errs = Inr eo"
    "calcFockMatrixUpdate env
       (log_calls [EvCheckConvergence (checkConvergence env eo (calcPropertyError env (property s1)))]
         (log_calls [EvCalcPropertyError] (s1\<lparr>orbError := orbError s1 @ [vnorm errs]\<rparr>))) d
       = Inr (dF, s2)"
    "s' = lowdin_rotate env p (madd (fMat_n s1) dF) s2"
    "v' = v\<lparr>converged := checkConvergence env eo (calcPropertyError env (property s1)),
            orb_prec := p, err_o := eo, err_t := vnorm errs,
            err_p := calcPropertyError env (property s1)\<rparr>"
proof -
  obtain p d errs s1 where c: "cycle_orbitals env s (err_o v) = (p, d, errs, s1)"
    by (metis prod_cases4)
  from assms c obtain eo where m: "maxCoeff errs = Inr eo"
    by (cases "maxCoeff errs") (simp_all add: scf_cycle_def)
  let ?s = "log_calls [EvCheckConvergence (checkConvergence env eo (calcPropertyError env (property s1)))]
         (log_calls [EvCalcPropertyError] (s1\<lparr>orbError := orbError s1 @ [vnorm errs]\<rparr>))"
  from assms c m obtain dF s2 where u: "calcFockMatrixUpdate env ?s d = Inr (dF, s2)"
    by (cases "calcFockMatrixUpdate env ?s d")
      (auto simp: scf_cycle_def next_fock_def Let_def log_calls_def)
  have f: "fMat_n ?s = fMat_n s1" by (simp add: log_calls_def)
  from assms c m u f have "s' = lowdin_rotate env p (madd (fMat_n s1) dF) s2"
    and "v' = v\<lparr>converged := checkConvergence env eo (calcPropertyError env (property s1)),
            orb_prec := p, err_o := eo, err_t := vnorm errs,
            err_p := calcPropertyError env (property s1)\<rparr>"
    by (auto simp: scf_cycle_def next_fock_def Let_def log_calls_def)
  with c m u show thesis by (rule that)
qed

lemma noncanon_update_calls: "list_all (\<lambda>e. \<not> is_canonicalization e) (update_calls p)"
  by (simp add: update_calls_def is_canonicalization_def)

lemma noncanon_rotate_calls: "list_all (\<lambda>e. \<not> is_canonicalization e) (rotate_calls p)"
  by (simp add: rotate_calls_def is_canonicalization_def)

lemma working_precision_append:
  "working_precision q (xs @ ys) = working_precision (working_precision q xs) ys"
  by (simp add: working_precision_def)

lemma working_precision_tail:
  "working_precision q (EvCheckConvergence b # update_calls p @ rotate_calls p) = q"
  by (simp add: working_precision_def update_calls_def rotate_calls_def)

lemma scf_cycle_frame:
  assumes "scf_cycle env s v = Inr (v', s')"
  shows "maxIter s' = maxIter s" "canonical s' = canonical s" "fOper_np1 s' \<noteq> None"
    "nIter v' = nIter v" "orb_prec v' = orbPrec s'"
    "length (property s') = Suc (length (property s))"
    "length (orbError s') = Suc (length (orbError s))"
    "\<exists>pre. calls s' = calls s @ EvAdjustPrecision (orb_prec v') # pre
               @ EvCheckConvergence (converged v') # update_calls (orb_prec v') @ rotate_calls (orb_prec v')
          \<and> list_all (\<lambda>e. \<not> is_canonicalization e) pre \<and> (\<forall>q. working_precision q pre = q)"
proof -
  from assms obtain p d errs s1 eo dF s2 where
    c: "cycle_orbitals env s (err_o v) = (p, d, errs, s1)" and
    u: "calcFockMatrixUpdate env
       (log_calls [EvCheckConvergence (checkConvergence env eo (calcPropertyError env (property s1)))]
         (log_calls [EvCalcPropertyError] (s1\<lparr>orbError := orbError s1 @ [vnorm errs]\<rparr>))) d
       = Inr (dF, s2)" and
    s': "s' = lowdin_rotate env p (madd (fMat_n s1) dF) s2" and
    v': "v' = v\<lparr>converged := checkConvergence env eo (calcPropertyError env (property s1)),
            orb_prec := p, err_o := eo, err_t := vnorm errs,
            err_p := calcPropertyError env (property s1)\<rparr>"
    by (rule scf_cycle_Inr)
  note fr = cycle_orbitals_frame [OF c]
  note uf = calcFockMatrixUpdate_frame [OF u]
  show "maxIter s' = maxIter s" using fr(2) uf(2) by (simp add: s' rotate_frame log_calls_def)
  show "canonical s' = canonical s" using fr(3) uf(3) by (simp add: s' rotate_frame log_calls_def)
  show "fOper_np1 s' \<noteq> None" using uf(1) by (simp add: s' rotate_frame)
  show "nIter v' = nIter v" by (simp add: v')
  show "orb_prec v' = orbPrec s'" using fr(4) uf(4) by (simp add: s' v' rotate_frame log_calls_def)
  show "length (property s') = Suc (length (property s))"
    using fr(6) uf(6) by (simp add: s' rotate_frame log_calls_def)
  show "length (orbError s') = Suc (length (orbError s))"
    using fr(5) uf(5) by (simp add: s' rotate_frame log_calls_def)
  from fr(9) obtain es where es: "calls s1 = calls s @ EvAdjustPrecision p # es"
    "list_all (\<lambda>e. \<not> is_canonicalization e) es" "\<forall>q. working_precision q es = q"
    by blast
  have "calls s' = calls s @ EvAdjustPrecision (orb_prec v') # (es @ [EvCalcPropertyError])
               @ EvCheckConvergence (converged v') # update_calls (orb_prec v') @ rotate_calls (orb_prec v')"
    using es(1) uf(10) fr(4) by (simp add: s' v' rotate_frame log_calls_def)
  moreover have "list_all (\<lambda>e. \<not> is_canonicalization e) (es @ [EvCalcPropertyError])"
    using es(2) by (simp add: is_canonicalization_def)
  moreover have "\<forall>q. working_precision q (es @ [EvCalcPropertyError]) = q"
    using es(3) by (simp add: working_precision_def)
  ultimately show "\<exists>pre. calls s' = calls s @ EvAdjustPrecision (orb_prec v') # pre
               @ EvCheckConvergence (converged v') # update_calls (orb_prec v') @ rotate_calls (orb_prec v')
          \<and> list_all (\<lambda>e. \<not> is_canonicalization e) pre \<and> (\<forall>q. working_precision q pre = q)"
    by blast
qed

lemma scf_cycle_total:
  assumes "fOper_np1 s = Some op" and "\<And>d. reduce_vector env (get_norms env d) \<noteq> []"
  shows "\<exists>v' s'. scf_cycle env s v = Inr (v', s')
           \<and> converged v' = checkConvergence env (err_o v') (err_p v')"
proof -
  obtain p d errs s1 where c: "cycle_orbitals env s (err_o v) = (p, d, errs, s1)"
    by (metis prod_cases4)
  note fr = cycle_orbitals_frame [OF c]
  have "errs \<noteq> []" using fr(7) assms(2) by simp
  then obtain eo where m: "maxCoeff errs = Inr eo"
    by (cases errs) (simp_all add: maxCoeff_def)
  let ?s = "log_calls [EvCheckConvergence (checkConvergence env eo (calcPropertyError env (property s1)))]
         (log_calls [EvCalcPropertyError] (s1\<lparr>orbError := orbError s1 @ [vnorm errs]\<rparr>))"
  have "fOper_np1 ?s = Some op" using fr(1) assms(1) by (simp add: log_calls_def)
  from calcFockMatrixUpdate_total [OF this, where env = env and d = d]
  obtain dF s2 where u: "calcFockMatrixUpdate env ?s d = Inr (dF, s2)"
    by blast
  show ?thesis using c m u
    by (simp add: scf_cycle_def next_fock_def Let_def)
qed

lemma scf_cycle_fatal:
  assumes "fOper_np1 s = None" and "\<And>d. reduce_vector env (get_norms env d) \<noteq> []"
  shows "scf_cycle env s v = Inl (Fatal ''Operator not initialized'')"
proof -
  obtain p d errs s1 where c: "cycle_orbitals env s (err_o v) = (p, d, errs, s1)"
    by (metis prod_cases4)
  note fr = cycle_orbitals_frame [OF c]
  have "errs \<noteq> []" using fr(7) assms(2) by simp
  then obtain eo where m: "maxCoeff errs = Inr eo"
    by (cases errs) (simp_all add: maxCoeff_def)
  let ?s = "log_calls [EvCheckConvergence (checkConvergence env eo (calcPropertyError env (property s1)))]
         (log_calls [EvCalcPropertyError] (s1\<lparr>orbError := orbError s1 @ [vnorm errs]\<rparr>))"
  have "fOper_np1 ?s = None" using fr(1) assms(1) by (simp add: log_calls_def)
  then have u: "calcFockMatrixUpdate env ?s d = Inl (Fatal ''Operator not initialized'')"
    by (rule calcFockMatrixUpdate_fatal)
  show ?thesis using c m u
    by (simp add: scf_cycle_def next_fock_def Let_def)
qed

section \<open>The loop\<close>

lemma canonicalize_frame:
  "fOper_np1 (canonicalize env p s) = fOper_np1 s" "maxIter (canonicalize env p s) = maxIter s"
  "canonical (canonicalize env p s) = canonical s" "orbPrec (canonicalize env p s) = orbPrec s"
  "orbError (canonicalize env p s) = orbError s" "property (canonicalize env p s) = property s"
  "calls (canonicalize env p s) = calls s @ [canon_event (canonical s) p]"
  by (simp_all add: canonicalize_def log_calls_def canon_event_def split: prod.splits)

lemma scf_loop_frame:
  assumes "scf_loop fuel env s v = Some (Inr (v', s'))" and "orb_prec v = orbPrec s"
  shows "canonical s' = canonical s \<and> maxIter s' = maxIter s \<and> orb_prec v' = orbPrec s'
       \<and> (\<exists>mid. calls s' = calls s @ mid
             \<and> list_all (\<lambda>e. \<not> is_canonicalization e) mid
             \<and> orbPrec s' = working_precision (orbPrec s) mid
             \<and> (mid = [] \<and> converged v' = converged v \<and> orb_prec v' = orb_prec v
                \<or> (\<exists>pre. mid = pre @ EvCheckConvergence (converged v')
                             # update_calls (orb_prec v') @ rotate_calls (orb_prec v'))))"
  using assms
proof (induction fuel arbitrary: s v)
  case 0
  then show ?case by simp
next
  case (Suc fuel)
  let ?v1 = "v\<lparr>nIter := nIter v + 1\<rparr>"
  show ?case
  proof (cases "nIter v < maxIter s \<or> maxIter s < 0")
    case False
    with Suc.prems have "v' = ?v1" "s' = s" by (simp_all add: Let_def)
    then show ?thesis using Suc.prems(2) by (simp add: working_precision_def)
  next
    case True
    with Suc.prems(1) obtain v2 s2 where c: "scf_cycle env s ?v1 = Inr (v2, s2)"
      by (cases "scf_cycle env s ?v1") (auto simp: Let_def)
    note fr = scf_cycle_frame [OF c]
    from fr(8) obtain pre where pre:
      "calls s2 = calls s @ EvAdjustPrecision (orb_prec v2) # pre
               @ EvCheckConvergence (converged v2) # update_calls (orb_prec v2) @ rotate_calls (orb_prec v2)"
      "list_all (\<lambda>e. \<not> is_canonicalization e) pre" "\<forall>q. working_precision q pre = q"
      by blast
    let ?m1 = "EvAdjustPrecision (orb_prec v2) # pre
               @ EvCheckConvergence (converged v2) # update_calls (orb_prec v2) @ rotate_calls (orb_prec v2)"
    have m1: "calls s2 = calls s @ ?m1" using pre(1) by simp
    have n1: "list_all (\<lambda>e. \<not> is_canonicalization e) ?m1"
      using pre(2) noncanon_update_calls noncanon_rotate_calls
      by (simp add: is_canonicalization_def)
    have w1: "working_precision q ?m1 = orbPrec s2" for q
    proof -
      have "working_precision q ?m1
          = working_precision (working_precision (working_precision q [EvAdjustPrecision (orb_prec v2)]) pre)
              (EvCheckConvergence (converged v2) # update_calls (orb_prec v2) @ rotate_calls (orb_prec v2))"
        by (simp add: working_precision_def)
      also have "\<dots> = orb_prec v2"
        using pre(3) by (simp add: working_precision_tail) (simp add: working_precision_def)
      finally show ?thesis using fr(5) by simp
    qed
    show ?thesis
    proof (cases "converged v2")
      case True
      with Suc.prems(1) \<open>nIter v < maxIter s \<or> maxIter s < 0\<close> c have e: "v' = v2" "s' = s2"
        by (simp_all add: Let_def)
      have "\<exists>pre'. ?m1 = pre' @ EvCheckConvergence (converged v2)
                             # update_calls (orb_prec v2) @ rotate_calls (orb_prec v2)"
        by (rule exI [of _ "EvAdjustPrecision (orb_prec v2) # pre"]) simp
      then show ?thesis
        using fr(1,2,5) m1 n1 w1 [of "orbPrec s"] unfolding e
        by (intro conjI exI [of _ ?m1]) simp_all
    next
      case False
      with Suc.prems(1) \<open>nIter v < maxIter s \<or> maxIter s < 0\<close> c
      have r: "scf_loop fuel env s2 v2 = Some (Inr (v', s'))"
        by (simp add: Let_def)
      from Suc.IH [OF r fr(5)] obtain mid where mid:
        "canonical s' = canonical s2" "maxIter s' = maxIter s2" "orb_prec v' = orbPrec s'"
        "calls s' = calls s2 @ mid" "list_all (\<lambda>e. \<not> is_canonicalization e) mid"
        "orbPrec s' = working_precision (orbPrec s2) mid"
        "mid = [] \<and> converged v' = converged v2 \<and> orb_prec v' = orb_prec v2
           \<or> (\<exists>pre. mid = pre @ EvCheckConvergence (converged v')
                             # update_calls (orb_prec v') @ rotate_calls (orb_prec v'))"
        by blast
      have a: "calls s' = calls s @ (?m1 @ mid)" using m1 mid(4) by simp
      have b: "list_all (\<lambda>e. \<not> is_canonicalization e) (?m1 @ mid)"
        using n1 mid(5) by simp
      have w: "orbPrec s' = working_precision (orbPrec s) (?m1 @ mid)"
        using mid(6) w1 [of "orbPrec s"] by (simp only: working_precision_append)
      have d: "\<exists>pre'. ?m1 @ mid = pre' @ EvCheckConvergence (converged v')
                             # update_calls (orb_prec v') @ rotate_calls (orb_prec v')"
        using mid(7)
      proof
        assume "mid = [] \<and> converged v' = converged v2 \<and> orb_prec v' = orb_prec v2"
        then show ?thesis
          by (intro exI [of _ "EvAdjustPrecision (orb_prec v2) # pre"]) simp
      next
        assume "\<exists>pre. mid = pre @ EvCheckConvergence (converged v')
                             # update_calls (orb_prec v') @ rotate_calls (orb_prec v')"
        then obtain pre2 where "mid = pre2 @ EvCheckConvergence (converged v')
                             # update_calls (orb_prec v') @ rotate_calls (orb_prec v')"
          by blast
        then show ?thesis
          by (intro exI [of _ "?m1 @ pre2"]) simp
      qed
      show ?thesis
        using fr(1,2) mid(1,2,3) a b w d by (intro conjI exI [of _ "?m1 @ mid"]) simp_all
    qed
  qed
qed

lemma scf_loop_sentinel:
  assumes "scf_loop fuel env s v = Some (Inr (v', s'))" and "maxIter s < 0"
  shows "converged v'"
  using assms
proof (induction fuel arbitrary: s v)
  case 0
  then show ?case by simp
next
  case (Suc fuel)
  let ?v1 = "v\<lparr>nIter := nIter v + 1\<rparr>"
  from Suc.prems obtain v2 s2 where c: "scf_cycle env s ?v1 = Inr (v2, s2)"
    by (cases "scf_cycle env s ?v1") (auto simp: Let_def)
  note fr = scf_cycle_frame [OF c]
  show ?case
  proof (cases "converged v2")
    case True
    with Suc.prems c show ?thesis by (simp add: Let_def)
  next
    case False
    with Suc.prems c have r: "scf_loop fuel env s2 v2 = Some (Inr (v', s'))"
      by (simp add: Let_def)
    have "maxIter s2 < 0" using Suc.prems(2) fr(1) by simp
    with r show ?thesis by (rule Suc.IH)
  qed
qed

lemma scf_loop_fatal:
  assumes "fOper_np1 s = None" and "\<And>d. reduce_vector env (get_norms env d) \<noteq> []"
    and "nIter v < maxIter s \<or> maxIter s < 0"
  shows "scf_loop (Suc fuel) env s v = Some (Inl (Fatal ''Operator not initialized''))"
  using assms(3) scf_cycle_fatal [OF assms(1,2)] by (simp add: Let_def)

lemma optimize_Inr:
  assumes "optimize fuel env s = Some (Inr (b, s'))"
  obtains eo v' s2 where "maxCoeff (get_errors env (orbitals_n s)) = Inr eo"
    "scf_loop fuel env (canonicalize env (orbPrec s) s)
       \<lparr>nIter = 0, converged = False, orb_prec = orbPrec s, err_o = eo, err_t = 1, err_p = 1\<rparr>
     = Some (Inr (v', s2))"
    "b = converged v'" "s' = canonicalize env (orb_prec v' / 10) s2"
  using assms
  by (auto simp: optimize_def Let_def split: sum.splits option.splits)

section \<open>The update on the small instance\<close>

lemma toy_terms:
  "update_terms (toy g cc) (toy_solver mx [[- 1]] (Some (- 1)) (1, []) (1 + \<i>, []) [- 1]) (\<i>, []) (- 1)
     = ([[- \<i>]], [[1 + \<i>]], [[- 1 - \<i>]], [[0]], [[0]], [[0]])"
  by (simp add: update_terms_def toy_def toy_solver_def toy_overlap_def amps_def smult_def
      algebra_simps)

lemma square_1: "square (Suc 0) [[z]]"
  by (simp add: square_def)

theorem next_fock_additive_witness:
  "fOper_np1 (toy_solver 5 [[- 1]] (Some (- 1)) (1, []) (1 + \<i>, []) [- 1]) = Some (- 1)
   \<and> list_all (square 1) [[[- 1]], [[- \<i>]], [[1 + \<i>]], [[- 1 - \<i>]], [[0]], [[0]], [[0]]]
   \<and> map_sum id fst
        (next_fock (toy 1 toy_conv) (toy_solver 5 [[- 1]] (Some (- 1)) (1, []) (1 + \<i>, []) [- 1]) (\<i>, []))
       = Inr [[- 3 - \<i>]]"
proof -
  let ?s = "toy_solver 5 [[- 1]] (Some (- 1)) (1, []) (1 + \<i>, []) [- 1]"
  have 1: "fOper_np1 ?s = Some (- 1)" by (simp add: toy_solver_def)
  have 3: "list_all (square 1) [fMat_n ?s, [[- \<i>]], [[1 + \<i>]], [[- 1 - \<i>]], [[0]], [[0]], [[0]]]"
    by (simp add: toy_solver_def square_1)
  have 4: "length (getLambda (toy 1 toy_conv) (helmholtz ?s)) = 1" by (simp add: toy_def toy_solver_def)
  have D: "madd (madd (madd [[- 1 - \<i>]] (mmul [[- \<i>]] (fMat_n ?s)))
                    (mmul [[1 + \<i>]] (asDiagonal (map complex_of_real (getLambda (toy 1 toy_conv) (helmholtz ?s))))))
               (msub (madd (madd [[0]] [[0]]) (mtranspose [[0]])) [[0]]) = [[- 2 - \<i>]]"
    by (simp add: toy_def toy_solver_def madd_def mmul_def msub_def mtranspose_def asDiagonal_def
        cols_def algebra_simps)
  have F: "madd (fMat_n ?s) (smult (1 / 2) (madd [[- 2 - \<i>]] (mtranspose [[- 2 - \<i>]]))) = [[- 3 - \<i>]]"
    by (simp add: toy_solver_def madd_def smult_def mtranspose_def cols_def algebra_simps)
  show ?thesis
    using 1 3 next_fock_additive [OF 1 toy_terms 3 4 D [symmetric]] F
    by (auto simp: toy_solver_def)
qed

theorem calcFockMatrixUpdate_restores_orbitals_witness:
  "calcFockMatrixUpdate (toy 1 toy_conv) (toy_solver 5 [[- 1]] (Some (- 1)) (1, []) (2, []) [- 1]) (1, [])
     = Inr ([[- 5]],
         (toy_solver 5 [[- 1]] (Some (- 1)) (1, []) (2, []) [- 1])\<lparr>calls := update_calls (1 / 1000)\<rparr>)
   \<and> orthonormalize (toy 1 toy_conv) (1 / 1000) (2, []) = (1, [])
   \<and> add (toy 1 toy_conv) 1 (2, []) (- 1) (1, []) = (1, [])
   \<and> add (toy 1 toy_conv) 1 (1, []) 1 (1, []) = (2, [])
   \<and> orbitals_np1 ((toy_solver 5 [[- 1]] (Some (- 1)) (1, []) (2, []) [- 1])\<lparr>calls := update_calls (1 / 1000)\<rparr>)
       = (2, [])"
proof -
  let ?s = "toy_solver 5 [[- 1]] (Some (- 1)) (1, []) (2, []) [- 1]"
  have v: "calcFockMatrixUpdate (toy 1 toy_conv) ?s (1, [])
     = Inr ([[- 5]], ?s\<lparr>calls := update_calls (1 / 1000)\<rparr>)"
    by (simp add: calcFockMatrixUpdate_def toy_def toy_solver_def toy_overlap_def
      amps_def orbs_def madd_def mmul_def msub_def smult_def mtranspose_def asDiagonal_def
      cols_def Let_def log_calls_def)
  have o: "orthonormalize (toy 1 toy_conv) (1 / 1000) (2, []) = (1, [])"
    by (simp add: toy_def amps_def orbs_def sgn_eq)
  have a: "add (toy 1 toy_conv) 1 (2, []) (- 1) (1, []) = (1, [])"
    "add (toy 1 toy_conv) 1 (1, []) 1 (1, []) = (2, [])"
    by (simp_all add: toy_def amps_def orbs_def)
  show ?thesis
    using v o a calcFockMatrixUpdate_restores_orbitals [OF v]
    by (simp add: toy_solver_def)
qed

section \<open>Runs of the solver\<close>

lemmas toy_eval = toy_def toy_solver_def toy_overlap_def toy_apply_def toy_conv_def
  amps_def orbs_def madd_def mmul_def msub_def smult_def mtranspose_def adjoint_def
  asDiagonal_def diagonal_def cols_def maxCoeff_def vnorm_def schedule_def log_calls_def
  update_calls_def rotate_calls_def orbital_calls_def
  cycle_orbitals_def calcFockMatrixUpdate_def next_fock_def lowdin_rotate_def scf_cycle_def Let_def

lemma scf_loop_exit:
  assumes "\<not> (nIter v < maxIter s \<or> maxIter s < 0)"
  shows "scf_loop (Suc fuel) env s v = Some (Inr (v\<lparr>nIter := nIter v + 1\<rparr>, s))"
  using assms by (simp add: Let_def)

lemma scf_loop_break:
  assumes "nIter v < maxIter s \<or> maxIter s < 0"
    and "scf_cycle env s (v\<lparr>nIter := nIter v + 1\<rparr>) = Inr (v', s')" and "converged v'"
  shows "scf_loop (Suc fuel) env s v = Some (Inr (v', s'))"
  using assms by (simp add: Let_def)

lemma scf_loop_continue:
  assumes "nIter v < maxIter s \<or> maxIter s < 0"
    and "scf_cycle env s (v\<lparr>nIter := nIter v + 1\<rparr>) = Inr (v', s')" and "\<not> converged v'"
  shows "scf_loop (Suc fuel) env s v = scf_loop fuel env s' v'"
  using assms by (simp add: Let_def)

lemma optimize_returns:
  assumes "maxCoeff (get_errors env (orbitals_n s)) = Inr eo"
    and "scf_loop fuel env (canonicalize env (orbPrec s) s)
       \<lparr>nIter = 0, converged = False, orb_prec = orbPrec s, err_o = eo, err_t = 1, err_p = 1\<rparr>
     = Some (Inr (v', s2))"
  shows "optimize fuel env s = Some (Inr (converged v', canonicalize env (orb_prec v' / 10) s2))"
  using assms by (simp add: optimize_def Let_def)

lemma optimize_diverges:
  assumes "maxCoeff (get_errors env (orbitals_n s)) = Inr eo"
    and "scf_loop fuel env (canonicalize env (orbPrec s) s)
       \<lparr>nIter = 0, converged = False, orb_prec = orbPrec s, err_o = eo, err_t = 1, err_p = 1\<rparr>
     = None"
  shows "optimize fuel env s = None"
  using assms by (simp add: optimize_def Let_def)

lemma optimize_aborts:
  assumes "maxCoeff (get_errors env (orbitals_n s)) = Inr eo"
    and "scf_loop fuel env (canonicalize env (orbPrec s) s)
       \<lparr>nIter = 0, converged = False, orb_prec = orbPrec s, err_o = eo, err_t = 1, err_p = 1\<rparr>
     = Some (Inl e)"
  shows "optimize fuel env s = Some (Inl e)"
  using assms by (simp add: optimize_def Let_def)

lemma toy_cycle_one:
  "scf_cycle (toy 1 toy_conv)
     ((toy_solver mx [[- 1]] (Some (- 1)) (1, []) (0, []) [])\<lparr>calls := cs\<rparr>)
     \<lparr>nIter = k, converged = False, orb_prec = 1 / 1000, err_o = 1, err_t = 1, err_p = 1\<rparr>
   = Inr (\<lparr>nIter = k, converged = True, orb_prec = 1 / 1000, err_o = 0, err_t = 0, err_p = 1\<rparr>,
       \<lparr>canonical = True, maxIter = mx, orbPrec = 1 / 1000, property = [- 1],
          orbError = [0], fMat_n = [[- 1]], fOper_n = - 1,
          fOper_np1 = Some (- 1), orbitals_n = (1, []),
          orbitals_np1 = (0, []), helmholtz = [- 1],
          calls = cs @ orbital_calls (1 / 1000) @ EvCheckConvergence True
                    # update_calls (1 / 1000) @ rotate_calls (1 / 1000)\<rparr>)"
  by (simp add: toy_eval)

lemma toy_solver_sel:
  "maxIter ((toy_solver mx F op Phi Phi1 lam)\<lparr>calls := cs\<rparr>) = mx"
  "orbPrec (toy_solver mx F op Phi Phi1 lam) = 1 / 1000"
  "orbitals_n (toy_solver mx F op Phi Phi1 lam) = Phi"
  "fOper_np1 (toy_solver mx F op Phi Phi1 lam) = op"
  "fOper_np1 ((toy_solver mx F op Phi Phi1 lam)\<lparr>calls := cs\<rparr>) = op"
  "maxIter (toy_solver mx F op Phi Phi1 lam) = mx"
  "canonical (toy_solver mx F op Phi Phi1 lam) = True"
  "calls (toy_solver mx F op Phi Phi1 lam) = []"
  "property (toy_solver mx F op Phi Phi1 lam) = []"
  "orbError (toy_solver mx F op Phi Phi1 lam) = []"
  by (simp_all add: toy_solver_def)

lemma toy_get_errors:
  "maxCoeff (get_errors (toy g cc) (z, [])) = Inr 1"
  by (simp add: toy_def amps_def maxCoeff_def)

lemma maxCoeff_Max:
  assumes "maxCoeff v = Inr m"
  shows "v \<noteq> []" "m = Max (set v)"
proof -
  from assms obtain x xs where v: "v = x # xs" and m: "m = fold max xs x"
    by (cases v) (auto simp: maxCoeff_def)
  show "v \<noteq> []" using v by simp
  show "m = Max (set v)" unfolding v m by (rule Max.set_eq_fold [symmetric])
qed

lemma cycle_orbitals_delta:
  assumes "cycle_orbitals env s e = (p, d, errs, s1)"
  shows "d = add env 1 (orbitals_np1 s1) (- 1) (orbitals_n s)"
  using assms by (auto simp: cycle_orbitals_def Let_def log_calls_def)

lemma scf_cycle_errors:
  assumes "scf_cycle env s v = Inr (v', s')"
    and "cycle_orbitals env s (err_o v) = (p, dPhi_n, errors, s1)"
  shows "errors \<noteq> []" "orbError s' = orbError s @ [sqrt (\<Sum>x\<leftarrow>errors. x * x)]"
    "err_t v' = sqrt (\<Sum>x\<leftarrow>errors. x * x)" "err_o v' = Max (set errors)"
    "converged v' = checkConvergence env (err_o v') (err_p v')"
proof -
  from assms(1) obtain p' d' errs' s1' eo dF s2 where
    c: "cycle_orbitals env s (err_o v) = (p', d', errs', s1')" and
    m: "maxCoeff errs' = Inr eo" and
    u: "calcFockMatrixUpdate env
       (log_calls [EvCheckConvergence (checkConvergence env eo (calcPropertyError env (property s1')))]
         (log_calls [EvCalcPropertyError] (s1'\<lparr>orbError := orbError s1' @ [vnorm errs']\<rparr>))) d'
       = Inr (dF, s2)" and
    s': "s' = lowdin_rotate env p' (madd (fMat_n s1') dF) s2" and
    v': "v' = v\<lparr>converged := checkConvergence env eo (calcPropertyError env (property s1')),
            orb_prec := p', err_o := eo, err_t := vnorm errs',
            err_p := calcPropertyError env (property s1')\<rparr>"
    by (rule scf_cycle_Inr)
  from c assms(2) have eq: "errs' = errors" "s1' = s1" by simp_all
  note fr = cycle_orbitals_frame [OF assms(2)]
  note uf = calcFockMatrixUpdate_frame [OF u]
  show "errors \<noteq> []" using maxCoeff_Max(1) [OF m] eq by simp
  show "orbError s' = orbError s @ [sqrt (\<Sum>x\<leftarrow>errors. x * x)]"
    using uf(5) fr(5) eq by (simp add: s' rotate_frame log_calls_def vnorm_def)
  show "err_t v' = sqrt (\<Sum>x\<leftarrow>errors. x * x)" using eq by (simp add: v' vnorm_def)
  show "err_o v' = Max (set errors)" using maxCoeff_Max(2) [OF m] eq by (simp add: v')
  show "converged v' = checkConvergence env (err_o v') (err_p v')" by (simp add: v')
qed

text \<open>
  C4 (as amended). In every completed iteration the scalar appended to the error
  history \<^verbatim>\<open>orbError\<close> is the Euclidean norm of the reduced per-orbital residual norms,
  one scalar per iteration, which is also the total error \<^verbatim>\<open>err_t\<close>. The maximum of the
  per-orbital residual norms is the orbital error \<^verbatim>\<open>err_o\<close>: it is handed to the
  convergence test and to the next precision adjustment, and it is not appended.
\<close>

theorem orbital_error_history:
  assumes "scf_cycle env s v = Inr (v', s')"
    and "cycle_orbitals env s (err_o v) = (p, dPhi_n, errors, s1)"
  shows "dPhi_n = add env 1 (orbitals_np1 s1) (- 1) (orbitals_n s)
       \<and> errors = reduce_vector env (get_norms env dPhi_n) \<and> errors \<noteq> []
       \<and> orbError s' = orbError s @ [sqrt (\<Sum>x\<leftarrow>errors. x * x)]
       \<and> err_t v' = sqrt (\<Sum>x\<leftarrow>errors. x * x)
       \<and> err_o v' = Max (set errors)
       \<and> converged v' = checkConvergence env (Max (set errors)) (err_p v')"
  using scf_cycle_errors [OF assms] cycle_orbitals_delta [OF assms(2)]
    cycle_orbitals_frame(7) [OF assms(2)]
  by simp

lemma toy_cycle_two:
  "scf_cycle (toy 1 toy_conv) (toy_solver 5 [[0, - 3], [- 4, 0]] (Some (- 1)) (1, [1]) (0, [0]) [])
     \<lparr>nIter = 1, converged = False, orb_prec = 1 / 1000, err_o = 1, err_t = 1, err_p = 1\<rparr>
   = Inr (\<lparr>nIter = 1, converged = False, orb_prec = 1 / 1000, err_o = 4, err_t = 5, err_p = 1\<rparr>,
       \<lparr>canonical = True, maxIter = 5, orbPrec = 1 / 1000, property = [0],
          orbError = [5],
          fMat_n = [[- (3 / 2), - (31 / 20)], [- (8 / 5), - (32 / 25)]],
          fOper_n = - 1, fOper_np1 = Some (- 1), orbitals_n = (1, [1]),
          orbitals_np1 = (0, []), helmholtz = [0, 0],
          calls = orbital_calls (1 / 1000) @ EvCheckConvergence False
                    # update_calls (1 / 1000) @ rotate_calls (1 / 1000)\<rparr>)"
  by (simp add: toy_eval)

lemma toy_orbitals_two:
  "cycle_orbitals (toy 1 toy_conv) (toy_solver 5 [[0, - 3], [- 4, 0]] (Some (- 1)) (1, [1]) (0, [0]) []) 1
   = (1 / 1000, (3, [4]), [3, 4],
       \<lparr>canonical = True, maxIter = 5, orbPrec = 1 / 1000, property = [0],
          orbError = [], fMat_n = [[0, - 3], [- 4, 0]],
          fOper_n = - 1, fOper_np1 = Some (- 1), orbitals_n = (1, [1]),
          orbitals_np1 = (4, [5]), helmholtz = [0, 0],
          calls = [EvAdjustPrecision (1 / 1000), EvFockSetup (1 / 1000), EvCalcProperty,
                   EvHelmholtzSetup (1 / 1000), EvHelmholtzArguments, EvHelmholtzApply,
                   EvFree ''Psi_n'', EvAdd, EvGetNorms, EvReduceVector, EvSetErrors]\<rparr>)"
  by (simp add: toy_eval)

theorem orbital_error_history_witness:
  "map_sum id (\<lambda>(v', s'). (orbError s', err_t v', err_o v', converged v'))
     (scf_cycle (toy 1 toy_conv)
        (toy_solver 5 [[0, - 3], [- 4, 0]] (Some (- 1)) (1, [1]) (0, [0]) [])
        \<lparr>nIter = 1, converged = False, orb_prec = 1 / 1000, err_o = 1, err_t = 1, err_p = 1\<rparr>)
     = Inr ([sqrt (3 * 3 + 4 * 4)], sqrt (3 * 3 + 4 * 4), Max {3, 4}, toy_conv (Max {3, 4}) 1)
   \<and> fst (snd (snd (cycle_orbitals (toy 1 toy_conv)
        (toy_solver 5 [[0, - 3], [- 4, 0]] (Some (- 1)) (1, [1]) (0, [0]) []) 1))) = [3, 4]"
proof -
  let ?v = "\<lparr>nIter = 1, converged = False, orb_prec = 1 / 1000, err_o = 1, err_t = 1, err_p = 1\<rparr>"
  have o: "cycle_orbitals (toy 1 toy_conv)
      (toy_solver 5 [[0, - 3], [- 4, 0]] (Some (- 1)) (1, [1]) (0, [0]) []) (err_o ?v) = 
      (1 / 1000, (3, [4]), [3, 4],
       \<lparr>canonical = True, maxIter = 5, orbPrec = 1 / 1000, property = [0],
          orbError = [], fMat_n = [[0, - 3], [- 4, 0]],
          fOper_n = - 1, fOper_np1 = Some (- 1), orbitals_n = (1, [1]),
          orbitals_np1 = (4, [5]), helmholtz = [0, 0],
          calls = [EvAdjustPrecision (1 / 1000), EvFockSetup (1 / 1000), EvCalcProperty,
                   EvHelmholtzSetup (1 / 1000), EvHelmholtzArguments, EvHelmholtzApply,
                   EvFree ''Psi_n'', EvAdd, EvGetNorms, EvReduceVector, EvSetErrors]\<rparr>)"
    using toy_orbitals_two by simp
  have c: "checkConvergence (toy 1 toy_conv) = toy_conv" by (simp add: toy_def)
  show ?thesis
    using orbital_error_history [OF toy_cycle_two o] toy_orbitals_two
    by (simp add: toy_cycle_two toy_solver_sel c)
qed

text \<open>
  The claim as stated fails: two orbitals with residual norms 3 and 4 append 5 to the
  history, while the maximum residual norm is 4.
\<close>

theorem orbital_error_history_not_max:
  "map_sum id (\<lambda>(v', s'). (orbError s', err_o v'))
     (scf_cycle (toy 1 toy_conv)
        (toy_solver 5 [[0, - 3], [- 4, 0]] (Some (- 1)) (1, [1]) (0, [0]) [])
        \<lparr>nIter = 1, converged = False, orb_prec = 1 / 1000, err_o = 1, err_t = 1, err_p = 1\<rparr>)
     = Inr ([5], 4)
   \<and> fst (snd (snd (cycle_orbitals (toy 1 toy_conv)
        (toy_solver 5 [[0, - 3], [- 4, 0]] (Some (- 1)) (1, [1]) (0, [0]) []) 1))) = [3, 4]
   \<and> Max {3, 4 :: real} = 4 \<and> (5 :: real) \<noteq> 4"
  by (simp add: toy_cycle_two toy_orbitals_two)

text \<open>
  C3. In every iteration that returns, the convergence test is evaluated once, on the
  orbital and property errors, and its result is stored; whatever the result, the calls
  of the Fock matrix update, the release of the orbitals and the rotation follow it, and
  the orbitals and the Fock matrix the iteration leaves are the rotated ones. A loop that
  returns has either run no iteration or ends with those calls after its last
  convergence test, and a true test ends the loop with the state the complete iteration
  left.
\<close>

theorem convergence_recorded_cycle_completes:
  "(scf_cycle env s v = Inr (v', s') \<longrightarrow>
       converged v' = checkConvergence env (err_o v') (err_p v')
     \<and> (\<exists>pre. calls s' = calls s @ pre @ EvCheckConvergence (converged v')
                    # update_calls (orb_prec v') @ rotate_calls (orb_prec v'))
     \<and> (\<exists>F_np1 Phi_np1.
           fMat_n s' = mmul (mmul (calc_lowdin_matrix env Phi_np1) F_np1)
                         (adjoint (calc_lowdin_matrix env Phi_np1))
         \<and> orbitals_n s' = multiply env (calc_lowdin_matrix env Phi_np1) Phi_np1 (orb_prec v')))
   \<and> (orb_prec v = orbPrec s \<and> scf_loop fuel env s v = Some (Inr (v', s')) \<longrightarrow>
        (calls s' = calls s \<and> converged v' = converged v)
      \<or> (\<exists>pre. calls s' = calls s @ pre @ EvCheckConvergence (converged v')
                    # update_calls (orb_prec v') @ rotate_calls (orb_prec v')))
   \<and> ((nIter v < maxIter s \<or> maxIter s < 0)
        \<and> scf_cycle env s (v\<lparr>nIter := nIter v + 1\<rparr>) = Inr (v', s') \<and> converged v'
       \<longrightarrow> scf_loop (Suc fuel) env s v = Some (Inr (v', s')))"
proof (intro conjI impI)
  assume c: "scf_cycle env s v = Inr (v', s')"
  show "converged v' = checkConvergence env (err_o v') (err_p v')"
  proof -
    obtain p d errs s1 where o: "cycle_orbitals env s (err_o v) = (p, d, errs, s1)"
      by (metis prod_cases4)
    show ?thesis by (rule scf_cycle_errors(5) [OF c o])
  qed
  from scf_cycle_frame(8) [OF c] obtain pre where
    "calls s' = calls s @ EvAdjustPrecision (orb_prec v') # pre
       @ EvCheckConvergence (converged v') # update_calls (orb_prec v') @ rotate_calls (orb_prec v')"
    by blast
  then show "\<exists>pre. calls s' = calls s @ pre @ EvCheckConvergence (converged v')
                    # update_calls (orb_prec v') @ rotate_calls (orb_prec v')"
    by (intro exI [of _ "EvAdjustPrecision (orb_prec v') # pre"]) simp
  from c obtain p d errs s1 eo dF s2 where
    "cycle_orbitals env s (err_o v) = (p, d, errs, s1)" and "maxCoeff errs = Inr eo" and
    "calcFockMatrixUpdate env
       (log_calls [EvCheckConvergence (checkConvergence env eo (calcPropertyError env (property s1)))]
         (log_calls [EvCalcPropertyError] (s1\<lparr>orbError := orbError s1 @ [vnorm errs]\<rparr>))) d
       = Inr (dF, s2)" and
    s': "s' = lowdin_rotate env p (madd (fMat_n s1) dF) s2" and
    v': "v' = v\<lparr>converged := checkConvergence env eo (calcPropertyError env (property s1)),
            orb_prec := p, err_o := eo, err_t := vnorm errs,
            err_p := calcPropertyError env (property s1)\<rparr>"
    by (rule scf_cycle_Inr)
  show "\<exists>F_np1 Phi_np1.
           fMat_n s' = mmul (mmul (calc_lowdin_matrix env Phi_np1) F_np1)
                         (adjoint (calc_lowdin_matrix env Phi_np1))
         \<and> orbitals_n s' = multiply env (calc_lowdin_matrix env Phi_np1) Phi_np1 (orb_prec v')"
    by (intro exI [of _ "madd (fMat_n s1) dF"] exI [of _ "orbitals_np1 s2"])
      (simp add: s' v' rotate_frame)
next
  assume a: "orb_prec v = orbPrec s \<and> scf_loop fuel env s v = Some (Inr (v', s'))"
  from scf_loop_frame [OF conjunct2 [OF a] conjunct1 [OF a]] obtain mid where
    m: "calls s' = calls s @ mid"
      "mid = [] \<and> converged v' = converged v \<and> orb_prec v' = orb_prec v
                \<or> (\<exists>pre. mid = pre @ EvCheckConvergence (converged v')
                             # update_calls (orb_prec v') @ rotate_calls (orb_prec v'))"
    by blast
  from m(2) show "(calls s' = calls s \<and> converged v' = converged v)
      \<or> (\<exists>pre. calls s' = calls s @ pre @ EvCheckConvergence (converged v')
                    # update_calls (orb_prec v') @ rotate_calls (orb_prec v'))"
  proof
    assume "mid = [] \<and> converged v' = converged v \<and> orb_prec v' = orb_prec v"
    then show ?thesis using m(1) by simp
  next
    assume "\<exists>pre. mid = pre @ EvCheckConvergence (converged v')
                             # update_calls (orb_prec v') @ rotate_calls (orb_prec v')"
    then obtain pre where "mid = pre @ EvCheckConvergence (converged v')
                             # update_calls (orb_prec v') @ rotate_calls (orb_prec v')"
      by blast
    then have "\<exists>pre. calls s' = calls s @ pre @ EvCheckConvergence (converged v')
                    # update_calls (orb_prec v') @ rotate_calls (orb_prec v')"
      using m(1) by (intro exI [of _ pre]) simp
    then show ?thesis by (rule disjI2)
  qed
next
  assume "(nIter v < maxIter s \<or> maxIter s < 0)
        \<and> scf_cycle env s (v\<lparr>nIter := nIter v + 1\<rparr>) = Inr (v', s') \<and> converged v'"
  then show "scf_loop (Suc fuel) env s v = Some (Inr (v', s'))"
    using scf_loop_break by blast
qed

text \<open>
  C6. With the n+1 Fock operator unset, the update is fatal whatever its arguments and
  collaborators, and \<^verbatim>\<open>optimize\<close> passes the error on from its first iteration; a
  negative projection precision aborts the construction of the nuclear potential.
\<close>

theorem fatal_contract_violations:
  "(fOper_np1 s = None \<longrightarrow>
      calcFockMatrixUpdate env s dPhi = Inl (Fatal ''Operator not initialized''))
   \<and> (fOper_np1 s = None \<and> maxIter s \<noteq> 0 \<and> get_errors env (orbitals_n s) \<noteq> []
        \<and> (\<forall>d. reduce_vector env (get_norms env d) \<noteq> [])
       \<longrightarrow> optimize (Suc fuel) env s = Some (Inl (Fatal ''Operator not initialized'')))
   \<and> (proj_prec < 0 \<longrightarrow>
        NuclearPotential build nucs proj_prec smooth_prec mpi_share
          = Inl (Abort ''Negative projection precision''))"
proof (intro conjI impI)
  assume "fOper_np1 s = None"
  then show "calcFockMatrixUpdate env s dPhi = Inl (Fatal ''Operator not initialized'')"
    by (rule calcFockMatrixUpdate_fatal)
next
  let ?s0 = "canonicalize env (orbPrec s) s"
  assume a: "fOper_np1 s = None \<and> maxIter s \<noteq> 0 \<and> get_errors env (orbitals_n s) \<noteq> []
        \<and> (\<forall>d. reduce_vector env (get_norms env d) \<noteq> [])"
  then obtain eo where e: "maxCoeff (get_errors env (orbitals_n s)) = Inr eo"
    by (cases "get_errors env (orbitals_n s)") (auto simp: maxCoeff_def)
  let ?v0 = "\<lparr>nIter = 0, converged = False, orb_prec = orbPrec s, err_o = eo, err_t = 1, err_p = 1\<rparr>"
  have "scf_loop (Suc fuel) env ?s0 ?v0 = Some (Inl (Fatal ''Operator not initialized''))"
  proof (rule scf_loop_fatal)
    show "fOper_np1 ?s0 = None" using a by (simp add: canonicalize_frame)
    show "reduce_vector env (get_norms env d) \<noteq> []" for d using a by blast
    show "nIter ?v0 < maxIter ?s0 \<or> maxIter ?s0 < 0" using a by (auto simp: canonicalize_frame)
  qed
  with e show "optimize (Suc fuel) env s = Some (Inl (Fatal ''Operator not initialized''))"
    by (rule optimize_aborts)
next
  assume "proj_prec < 0"
  then show "NuclearPotential build nucs proj_prec smooth_prec mpi_share
          = Inl (Abort ''Negative projection precision'')"
    by (simp add: NuclearPotential_def)
qed

lemma toy_norms_nonempty: "reduce_vector (toy g cc) (get_norms (toy g cc) d) \<noteq> []"
  by (simp add: toy_def amps_def)

lemma toy_errors_nonempty: "get_errors (toy g cc) Phi \<noteq> []"
  by (simp add: toy_def amps_def)

lemma toy_check: "checkConvergence (toy g cc) = cc"
  by (simp add: toy_def)

theorem convergence_recorded_cycle_completes_witness:
  "(let s0 = toy_solver 5 [[- 1]] (Some (- 1)) (1, []) (0, []) [];
        v0 = \<lparr>nIter = 0, converged = False, orb_prec = 1 / 1000, err_o = 1, err_t = 1, err_p = 1\<rparr>;
        V = \<lparr>nIter = 1, converged = True, orb_prec = 1 / 1000, err_o = 0, err_t = 0, err_p = 1\<rparr>;
        S = \<lparr>canonical = True, maxIter = 5, orbPrec = 1 / 1000, property = [- 1],
          orbError = [0], fMat_n = [[- 1]], fOper_n = - 1,
          fOper_np1 = Some (- 1), orbitals_n = (1, []),
          orbitals_np1 = (0, []), helmholtz = [- 1],
          calls = orbital_calls (1 / 1000) @ EvCheckConvergence True
                    # update_calls (1 / 1000) @ rotate_calls (1 / 1000)\<rparr>
    in scf_cycle (toy 1 toy_conv) s0 (v0\<lparr>nIter := nIter v0 + 1\<rparr>) = Inr (V, S)
       \<and> nIter v0 < maxIter s0 \<and> converged V
       \<and> converged V = checkConvergence (toy 1 toy_conv) (err_o V) (err_p V)
       \<and> (\<exists>pre. calls S = calls s0 @ pre @ EvCheckConvergence (converged V)
                    # update_calls (orb_prec V) @ rotate_calls (orb_prec V))
       \<and> scf_loop 1 (toy 1 toy_conv) s0 v0 = Some (Inr (V, S)))"
proof -
  let ?T = "toy 1 toy_conv"
  let ?s0 = "toy_solver 5 [[- 1]] (Some (- 1)) (1, []) (0, []) []"
  let ?v0 = "\<lparr>nIter = 0, converged = False, orb_prec = 1 / 1000, err_o = 1, err_t = 1, err_p = 1\<rparr>"
  let ?V = "\<lparr>nIter = 1, converged = True, orb_prec = 1 / 1000, err_o = 0, err_t = 0, err_p = 1\<rparr>"
  let ?S = "\<lparr>canonical = True, maxIter = 5, orbPrec = 1 / 1000, property = [- 1],
          orbError = [0], fMat_n = [[- 1]], fOper_n = - 1,
          fOper_np1 = Some (- 1), orbitals_n = (1, []),
          orbitals_np1 = (0, []), helmholtz = [- 1],
          calls = orbital_calls (1 / 1000) @ EvCheckConvergence True
                    # update_calls (1 / 1000) @ rotate_calls (1 / 1000)\<rparr>"
  have c: "scf_cycle ?T ?s0 (?v0\<lparr>nIter := nIter ?v0 + 1\<rparr>) = Inr (?V, ?S)"
    using toy_cycle_one [where cs = "[]" and k = 1 and mx = 5] by (simp add: toy_solver_def)
  have m: "nIter ?v0 < maxIter ?s0" by (simp add: toy_solver_sel)
  have k: "converged ?V" by simp
  note t1 = convergence_recorded_cycle_completes
    [where env = ?T and s = ?s0 and v = "?v0\<lparr>nIter := nIter ?v0 + 1\<rparr>" and v' = ?V and s' = ?S,
      THEN conjunct1, rule_format, OF c]
  note t3 = convergence_recorded_cycle_completes
    [where env = ?T and s = ?s0 and v = ?v0 and v' = ?V and s' = ?S and fuel = 0,
      THEN conjunct2, THEN conjunct2, rule_format, OF conjI [OF disjI1 [OF m] conjI [OF c k]]]
  show ?thesis
    unfolding Let_def One_nat_def using c m t1 t3 by simp
qed

theorem fatal_contract_violations_witness:
  "(let T = toy 1 toy_conv;
        s0 = toy_solver 5 [[- 1]] None (1, []) (0, []) []
    in fOper_np1 s0 = None
       \<and> calcFockMatrixUpdate T s0 (0, []) = Inl (Fatal ''Operator not initialized'')
       \<and> maxIter s0 \<noteq> 0 \<and> get_errors T (orbitals_n s0) \<noteq> []
       \<and> (\<forall>d. reduce_vector T (get_norms T d) \<noteq> [])
       \<and> optimize 1 T s0 = Some (Inl (Fatal ''Operator not initialized''))
       \<and> (- 1 :: real) < 0
       \<and> NuclearPotential (\<lambda>n p sp sh. (p, sp)) [1 :: real, 1] (- 1) 0 False
            = Inl (Abort ''Negative projection precision''))"
proof -
  let ?T = "toy 1 toy_conv"
  let ?s0 = "toy_solver 5 [[- 1]] None (1, []) (0, []) []"
  have n: "fOper_np1 ?s0 = None" by (simp add: toy_solver_sel)
  have h: "fOper_np1 ?s0 = None \<and> maxIter ?s0 \<noteq> 0 \<and> get_errors ?T (orbitals_n ?s0) \<noteq> []
        \<and> (\<forall>d. reduce_vector ?T (get_norms ?T d) \<noteq> [])"
    by (simp add: toy_solver_sel toy_norms_nonempty toy_errors_nonempty)
  have p: "(- 1 :: real) < 0" by simp
  note t = fatal_contract_violations
    [where env = ?T and s = ?s0 and fuel = 0 and dPhi = "(0, [])" and proj_prec = "- 1"
       and build = "\<lambda>n p sp sh. (p, sp)" and nucs = "[1 :: real, 1]" and smooth_prec = 0
       and mpi_share = False]
  show ?thesis
    unfolding Let_def One_nat_def
    using h p t [THEN conjunct1, rule_format, OF n]
      t [THEN conjunct2, THEN conjunct1, rule_format, OF h]
      t [THEN conjunct2, THEN conjunct2, rule_format, OF p]
    by simp
qed


section \<open>Canonicalisation and the iteration cap\<close>



lemma scf_cycle_vars:
  assumes "scf_cycle env s v = Inr (v', s')"
  shows "converged v' = checkConvergence env (err_o v') (err_p v')"
proof -
  obtain p d errs s1 where o: "cycle_orbitals env s (err_o v) = (p, d, errs, s1)"
    by (metis prod_cases4)
  show ?thesis by (rule scf_cycle_errors(5) [OF assms o])
qed

lemma scf_loop_cap_general:
  assumes na: "\<And>d. reduce_vector env (get_norms env d) \<noteq> []"
    and "fOper_np1 s \<noteq> None" and "0 \<le> maxIter s" and "nIter v \<le> maxIter s"
    and "nat (maxIter s - nIter v) < fuel"
  shows "\<exists>v' s' k. scf_loop fuel env s v = Some (Inr (v', s'))
           \<and> k \<le> nat (maxIter s - nIter v)
           \<and> length (property s') = length (property s) + k
           \<and> length (orbError s') = length (orbError s) + k
           \<and> (k = 0 \<longrightarrow> converged v' = converged v \<and> err_o v' = err_o v \<and> err_p v' = err_p v)
           \<and> (0 < k \<longrightarrow> converged v' = checkConvergence env (err_o v') (err_p v'))
           \<and> (\<not> converged v' \<longrightarrow> k = nat (maxIter s - nIter v))"
  using assms(2-)
proof (induction fuel arbitrary: s v)
  case 0
  then show ?case by simp
next
  case (Suc fuel)
  let ?v1 = "v\<lparr>nIter := nIter v + 1\<rparr>"
  show ?case
  proof (cases "nIter v < maxIter s")
    case False
    then have "scf_loop (Suc fuel) env s v = Some (Inr (?v1, s))"
      using Suc.prems(2) by (simp add: Let_def)
    moreover have "nat (maxIter s - nIter v) = 0" using False by simp
    ultimately show ?thesis
      by (intro exI [of _ ?v1] exI [of _ s] exI [of _ 0]) simp
  next
    case True
    from Suc.prems(1) obtain op where op: "fOper_np1 s = Some op" by blast
    from scf_cycle_total [OF op na, where v = ?v1]
    obtain v2 s2 where c: "scf_cycle env s ?v1 = Inr (v2, s2)"
      and cv: "converged v2 = checkConvergence env (err_o v2) (err_p v2)"
      by blast
    note fr = scf_cycle_frame [OF c]
    have n2: "nIter v2 = nIter v + 1" using fr(4) by simp
    have m: "nat (maxIter s - nIter v) = Suc (nat (maxIter s - nIter v2))"
      using True n2 by simp
    show ?thesis
    proof (cases "converged v2")
      case True
      have "scf_loop (Suc fuel) env s v = Some (Inr (v2, s2))"
        using \<open>nIter v < maxIter s\<close> c True by (simp add: Let_def)
      then show ?thesis
        using fr(6,7) cv True m
        by (intro exI [of _ v2] exI [of _ s2] exI [of _ 1]) simp
    next
      case False
      have r: "scf_loop (Suc fuel) env s v = scf_loop fuel env s2 v2"
        using \<open>nIter v < maxIter s\<close> c False by (simp add: Let_def)
      have "\<exists>v' s' k. scf_loop fuel env s2 v2 = Some (Inr (v', s'))
           \<and> k \<le> nat (maxIter s2 - nIter v2)
           \<and> length (property s') = length (property s2) + k
           \<and> length (orbError s') = length (orbError s2) + k
           \<and> (k = 0 \<longrightarrow> converged v' = converged v2 \<and> err_o v' = err_o v2 \<and> err_p v' = err_p v2)
           \<and> (0 < k \<longrightarrow> converged v' = checkConvergence env (err_o v') (err_p v'))
           \<and> (\<not> converged v' \<longrightarrow> k = nat (maxIter s2 - nIter v2))"
      proof (rule Suc.IH)
        show "fOper_np1 s2 \<noteq> None" by (rule fr(3))
        show "0 \<le> maxIter s2" using Suc.prems(2) fr(1) by simp
        show "nIter v2 \<le> maxIter s2" using True n2 fr(1) by simp
        show "nat (maxIter s2 - nIter v2) < fuel" using Suc.prems(4) m fr(1) by simp
      qed
      then obtain v' s' k where k:
        "scf_loop fuel env s2 v2 = Some (Inr (v', s'))"
        "k \<le> nat (maxIter s - nIter v2)"
        "length (property s') = length (property s2) + k"
        "length (orbError s') = length (orbError s2) + k"
        "k = 0 \<longrightarrow> converged v' = converged v2 \<and> err_o v' = err_o v2 \<and> err_p v' = err_p v2"
        "0 < k \<longrightarrow> converged v' = checkConvergence env (err_o v') (err_p v')"
        "\<not> converged v' \<longrightarrow> k = nat (maxIter s - nIter v2)"
        unfolding fr(1) by (elim exE conjE) (rule that; assumption)
      have c': "converged v' = checkConvergence env (err_o v') (err_p v')"
        using k(5,6) cv by (cases "k = 0") simp_all
      show ?thesis
        unfolding r using k(1,2,3,4,7) c' fr(6,7) m
        by (intro exI [of _ v'] exI [of _ s'] exI [of _ "Suc k"]) simp
    qed
  qed
qed

lemma unconverged_after_Suc:
  assumes "scf_cycle env s (v\<lparr>nIter := nIter v + 1\<rparr>) = Inr (v2, s2)"
  shows "unconverged_after env s v (Suc j) = unconverged_after env s2 v2 j"
    and "cycles (Suc j) env s v = cycles j env s2 v2"
  using assms by (simp_all add: unconverged_after_def)

lemma unconverged_after_first:
  assumes "unconverged_after env s v (Suc 0)"
  obtains v2 s2 where "scf_cycle env s (v\<lparr>nIter := nIter v + 1\<rparr>) = Inr (v2, s2)"
    and "\<not> converged v2"
  using assms
  by (cases "scf_cycle env s (v\<lparr>nIter := nIter v + 1\<rparr>)")
    (auto simp: unconverged_after_def)

lemma scf_loop_cycles_cap:
  assumes "0 \<le> maxIter s" and "nIter v \<le> maxIter s"
    and "nat (maxIter s - nIter v) < fuel"
    and "\<And>j. 1 \<le> j \<Longrightarrow> j \<le> nat (maxIter s - nIter v) \<Longrightarrow> unconverged_after env s v j"
    and "\<not> converged v"
  shows "\<exists>v' s'. cycles (nat (maxIter s - nIter v)) env s v = Inr (v', s')
           \<and> scf_loop fuel env s v = Some (Inr (v'\<lparr>nIter := nIter v' + 1\<rparr>, s'))
           \<and> \<not> converged v'
           \<and> length (property s') = length (property s) + nat (maxIter s - nIter v)
           \<and> length (orbError s') = length (orbError s) + nat (maxIter s - nIter v)"
  using assms
proof (induction fuel arbitrary: s v)
  case 0
  then show ?case by simp
next
  case (Suc fuel)
  let ?v1 = "v\<lparr>nIter := nIter v + 1\<rparr>"
  show ?case
  proof (cases "nIter v < maxIter s")
    case False
    then have "scf_loop (Suc fuel) env s v = Some (Inr (?v1, s))"
      using Suc.prems(1) by (simp add: Let_def)
    moreover have "nat (maxIter s - nIter v) = 0" using False by simp
    ultimately show ?thesis using Suc.prems(5) by simp
  next
    case True
    then have one: "1 \<le> (1::nat)" "1 \<le> nat (maxIter s - nIter v)" by simp_all
    have "unconverged_after env s v (Suc 0)"
      using Suc.prems(4) [OF one] by simp
    then obtain v2 s2 where c: "scf_cycle env s ?v1 = Inr (v2, s2)" and nc: "\<not> converged v2"
      by (rule unconverged_after_first)
    note fr = scf_cycle_frame [OF c]
    have n2: "nIter v2 = nIter v + 1" using fr(4) by simp
    have m: "nat (maxIter s - nIter v) = Suc (nat (maxIter s2 - nIter v2))"
      using True n2 fr(1) by simp
    have r: "scf_loop (Suc fuel) env s v = scf_loop fuel env s2 v2"
      using True c nc by (simp add: Let_def)
    have "\<exists>v' s'. cycles (nat (maxIter s2 - nIter v2)) env s2 v2 = Inr (v', s')
           \<and> scf_loop fuel env s2 v2 = Some (Inr (v'\<lparr>nIter := nIter v' + 1\<rparr>, s'))
           \<and> \<not> converged v'
           \<and> length (property s') = length (property s2) + nat (maxIter s2 - nIter v2)
           \<and> length (orbError s') = length (orbError s2) + nat (maxIter s2 - nIter v2)"
    proof (rule Suc.IH)
      show "0 \<le> maxIter s2" using Suc.prems(1) fr(1) by simp
      show "nIter v2 \<le> maxIter s2" using True n2 fr(1) by simp
      show "nat (maxIter s2 - nIter v2) < fuel" using Suc.prems(3) m by simp
      show "\<not> converged v2" by (rule nc)
      fix j assume j: "1 \<le> j" "j \<le> nat (maxIter s2 - nIter v2)"
      have "unconverged_after env s v (Suc j)"
        using j m by (intro Suc.prems(4)) simp_all
      then show "unconverged_after env s2 v2 j"
        by (simp only: unconverged_after_Suc(1) [OF c])
    qed
    then obtain v' s' where k:
      "cycles (nat (maxIter s2 - nIter v2)) env s2 v2 = Inr (v', s')"
      "scf_loop fuel env s2 v2 = Some (Inr (v'\<lparr>nIter := nIter v' + 1\<rparr>, s'))"
      "\<not> converged v'"
      "length (property s') = length (property s2) + nat (maxIter s2 - nIter v2)"
      "length (orbError s') = length (orbError s2) + nat (maxIter s2 - nIter v2)"
      by blast
    have "cycles (nat (maxIter s - nIter v)) env s v = Inr (v', s')"
      unfolding m using k(1) by (simp only: unconverged_after_Suc(2) [OF c])
    then show ?thesis
      unfolding r using k(2,3,4,5) fr(6,7) m
      by (intro exI [of _ v'] exI [of _ s']) simp
  qed
qed

lemma scf_loop_cycles_runs:
  assumes "maxIter s < 0"
    and "\<And>j. 1 \<le> j \<Longrightarrow> j \<le> fuel \<Longrightarrow> unconverged_after env s v j"
  shows "scf_loop fuel env s v = None"
  using assms
proof (induction fuel arbitrary: s v)
  case 0
  then show ?case by simp
next
  case (Suc fuel)
  let ?v1 = "v\<lparr>nIter := nIter v + 1\<rparr>"
  have "unconverged_after env s v (Suc 0)"
    by (rule Suc.prems(2)) simp_all
  then obtain v2 s2 where c: "scf_cycle env s ?v1 = Inr (v2, s2)" and nc: "\<not> converged v2"
    by (rule unconverged_after_first)
  note fr = scf_cycle_frame [OF c]
  have "scf_loop (Suc fuel) env s v = scf_loop fuel env s2 v2"
    using Suc.prems(1) c nc by (simp add: Let_def)
  also have "\<dots> = None"
  proof (rule Suc.IH)
    show "maxIter s2 < 0" using Suc.prems(1) fr(1) by simp
    fix j assume j: "1 \<le> j" "j \<le> fuel"
    have "unconverged_after env s v (Suc j)"
      using j by (intro Suc.prems(2)) simp_all
    then show "unconverged_after env s2 v2 j"
      by (simp only: unconverged_after_Suc(1) [OF c])
  qed
  finally show ?case .
qed


text \<open>
  C7. With a non-negative iteration cap and no abort, \<^verbatim>\<open>optimize\<close> returns once the fuel
  exceeds the cap, whatever the convergence test: after at most that many iterations,
  each with its entry in the histories, with the verdict of the last convergence test,
  and a false verdict only after exactly as many iterations as the cap. A run whose
  first iterations up to the cap all end unconverged returns false, leaving the solver
  of the last iteration, canonicalised. With a negative cap \<^verbatim>\<open>optimize\<close> returns only with
  true, and a run whose iterations all end unconverged does not return, whatever the
  fuel.
\<close>

theorem iteration_cap:
  "(0 \<le> maxIter s \<and> nat (maxIter s) < fuel
      \<and> (\<forall>d. reduce_vector env (get_norms env d) \<noteq> [])
      \<and> get_errors env (orbitals_n s) \<noteq> [] \<and> fOper_np1 s \<noteq> None
     \<longrightarrow> (\<exists>eo v' s2 k.
            maxCoeff (get_errors env (orbitals_n s)) = Inr eo
          \<and> scf_loop fuel env (canonicalize env (orbPrec s) s) (start_vars s eo)
              = Some (Inr (v', s2))
          \<and> optimize fuel env s
              = Some (Inr (converged v', canonicalize env (orb_prec v' / 10) s2))
          \<and> k \<le> nat (maxIter s)
          \<and> length (property s2) = length (property s) + k
          \<and> length (orbError s2) = length (orbError s) + k
          \<and> (0 < k \<longrightarrow> converged v' = checkConvergence env (err_o v') (err_p v'))
          \<and> (\<not> converged v' \<longrightarrow> k = nat (maxIter s))))
   \<and> (maxCoeff (get_errors env (orbitals_n s)) = Inr eo1
      \<and> 0 \<le> maxIter s \<and> nat (maxIter s) < fuel
      \<and> (\<forall>j. 1 \<le> j \<and> j \<le> nat (maxIter s) \<longrightarrow>
            unconverged_after env (canonicalize env (orbPrec s) s) (start_vars s eo1) j)
     \<longrightarrow> (\<exists>v' s2.
            cycles (nat (maxIter s)) env (canonicalize env (orbPrec s) s) (start_vars s eo1)
              = Inr (v', s2)
          \<and> optimize fuel env s = Some (Inr (False, canonicalize env (orb_prec v' / 10) s2))
          \<and> length (property s2) = length (property s) + nat (maxIter s)
          \<and> length (orbError s2) = length (orbError s) + nat (maxIter s)))
   \<and> (maxIter s < 0 \<and> optimize fuel env s = Some (Inr (b, s1)) \<longrightarrow> b)
   \<and> (maxCoeff (get_errors env (orbitals_n s)) = Inr eo1 \<and> maxIter s < 0
      \<and> (\<forall>j. 1 \<le> j \<and> j \<le> fuel \<longrightarrow>
            unconverged_after env (canonicalize env (orbPrec s) s) (start_vars s eo1) j)
     \<longrightarrow> optimize fuel env s = None)"
proof (intro conjI impI)
  let ?s0 = "canonicalize env (orbPrec s) s"
  assume a: "0 \<le> maxIter s \<and> nat (maxIter s) < fuel
      \<and> (\<forall>d. reduce_vector env (get_norms env d) \<noteq> [])
      \<and> get_errors env (orbitals_n s) \<noteq> [] \<and> fOper_np1 s \<noteq> None"
  then obtain eo where e: "maxCoeff (get_errors env (orbitals_n s)) = Inr eo"
    by (cases "get_errors env (orbitals_n s)") (auto simp: maxCoeff_def)
  let ?v0 = "start_vars s eo"
  have "\<exists>v' s' k. scf_loop fuel env ?s0 ?v0 = Some (Inr (v', s'))
           \<and> k \<le> nat (maxIter ?s0 - nIter ?v0)
           \<and> length (property s') = length (property ?s0) + k
           \<and> length (orbError s') = length (orbError ?s0) + k
           \<and> (k = 0 \<longrightarrow> converged v' = converged ?v0 \<and> err_o v' = err_o ?v0 \<and> err_p v' = err_p ?v0)
           \<and> (0 < k \<longrightarrow> converged v' = checkConvergence env (err_o v') (err_p v'))
           \<and> (\<not> converged v' \<longrightarrow> k = nat (maxIter ?s0 - nIter ?v0))"
  proof (rule scf_loop_cap_general)
    show "reduce_vector env (get_norms env d) \<noteq> []" for d using a by blast
    show "fOper_np1 ?s0 \<noteq> None" using a by (simp add: canonicalize_frame)
    show "0 \<le> maxIter ?s0" using a by (simp add: canonicalize_frame)
    show "nIter ?v0 \<le> maxIter ?s0" using a by (simp add: canonicalize_frame start_vars_def)
    show "nat (maxIter ?s0 - nIter ?v0) < fuel"
      using a by (simp add: canonicalize_frame start_vars_def)
  qed
  then obtain v' s2 k where k:
    "scf_loop fuel env ?s0 ?v0 = Some (Inr (v', s2))"
    "k \<le> nat (maxIter s)"
    "length (property s2) = length (property s) + k"
    "length (orbError s2) = length (orbError s) + k"
    "0 < k \<longrightarrow> converged v' = checkConvergence env (err_o v') (err_p v')"
    "\<not> converged v' \<longrightarrow> k = nat (maxIter s)"
    by (auto simp: canonicalize_frame start_vars_def)
  have o: "optimize fuel env s = Some (Inr (converged v', canonicalize env (orb_prec v' / 10) s2))"
    using e k(1) unfolding start_vars_def by (rule optimize_returns)
  show "\<exists>eo v' s2 k.
            maxCoeff (get_errors env (orbitals_n s)) = Inr eo
          \<and> scf_loop fuel env ?s0 (start_vars s eo) = Some (Inr (v', s2))
          \<and> optimize fuel env s
              = Some (Inr (converged v', canonicalize env (orb_prec v' / 10) s2))
          \<and> k \<le> nat (maxIter s)
          \<and> length (property s2) = length (property s) + k
          \<and> length (orbError s2) = length (orbError s) + k
          \<and> (0 < k \<longrightarrow> converged v' = checkConvergence env (err_o v') (err_p v'))
          \<and> (\<not> converged v' \<longrightarrow> k = nat (maxIter s))"
    by (intro exI [of _ eo] exI [of _ v'] exI [of _ s2] exI [of _ k] conjI)
      (rule e k o)+
next
  let ?s0 = "canonicalize env (orbPrec s) s"
  let ?v0 = "start_vars s eo1"
  assume a: "maxCoeff (get_errors env (orbitals_n s)) = Inr eo1
      \<and> 0 \<le> maxIter s \<and> nat (maxIter s) < fuel
      \<and> (\<forall>j. 1 \<le> j \<and> j \<le> nat (maxIter s) \<longrightarrow> unconverged_after env ?s0 ?v0 j)"
  have "\<exists>v' s'. cycles (nat (maxIter ?s0 - nIter ?v0)) env ?s0 ?v0 = Inr (v', s')
           \<and> scf_loop fuel env ?s0 ?v0 = Some (Inr (v'\<lparr>nIter := nIter v' + 1\<rparr>, s'))
           \<and> \<not> converged v'
           \<and> length (property s') = length (property ?s0) + nat (maxIter ?s0 - nIter ?v0)
           \<and> length (orbError s') = length (orbError ?s0) + nat (maxIter ?s0 - nIter ?v0)"
  proof (rule scf_loop_cycles_cap)
    show "0 \<le> maxIter ?s0" using a by (simp add: canonicalize_frame)
    show "nIter ?v0 \<le> maxIter ?s0" using a by (simp add: canonicalize_frame start_vars_def)
    show "nat (maxIter ?s0 - nIter ?v0) < fuel"
      using a by (simp add: canonicalize_frame start_vars_def)
    show "\<not> converged ?v0" by (simp add: start_vars_def)
    fix j assume "1 \<le> j" "j \<le> nat (maxIter ?s0 - nIter ?v0)"
    then show "unconverged_after env ?s0 ?v0 j"
      using a by (simp add: canonicalize_frame start_vars_def)
  qed
  then obtain v' s2 where k:
    "cycles (nat (maxIter s)) env ?s0 ?v0 = Inr (v', s2)"
    "scf_loop fuel env ?s0 ?v0 = Some (Inr (v'\<lparr>nIter := nIter v' + 1\<rparr>, s2))"
    "\<not> converged v'"
    "length (property s2) = length (property s) + nat (maxIter s)"
    "length (orbError s2) = length (orbError s) + nat (maxIter s)"
    by (auto simp: canonicalize_frame start_vars_def)
  have e: "maxCoeff (get_errors env (orbitals_n s)) = Inr eo1" using a by simp
  have "optimize fuel env s
      = Some (Inr (converged (v'\<lparr>nIter := nIter v' + 1\<rparr>),
                   canonicalize env (orb_prec (v'\<lparr>nIter := nIter v' + 1\<rparr>) / 10) s2))"
    using e k(2) unfolding start_vars_def by (rule optimize_returns)
  then have o: "optimize fuel env s = Some (Inr (False, canonicalize env (orb_prec v' / 10) s2))"
    using k(3) by simp
  show "\<exists>v' s2.
            cycles (nat (maxIter s)) env ?s0 ?v0 = Inr (v', s2)
          \<and> optimize fuel env s = Some (Inr (False, canonicalize env (orb_prec v' / 10) s2))
          \<and> length (property s2) = length (property s) + nat (maxIter s)
          \<and> length (orbError s2) = length (orbError s) + nat (maxIter s)"
    by (intro exI [of _ v'] exI [of _ s2] conjI) (rule k o)+
next
  assume a: "maxIter s < 0 \<and> optimize fuel env s = Some (Inr (b, s1))"
  then have o: "optimize fuel env s = Some (Inr (b, s1))" by simp
  from o obtain eo v' s2 where
    "maxCoeff (get_errors env (orbitals_n s)) = Inr eo" and
    l: "scf_loop fuel env (canonicalize env (orbPrec s) s)
       \<lparr>nIter = 0, converged = False, orb_prec = orbPrec s, err_o = eo, err_t = 1, err_p = 1\<rparr>
     = Some (Inr (v', s2))" and b: "b = converged v'" and
    "s1 = canonicalize env (orb_prec v' / 10) s2"
    by (rule optimize_Inr)
  have "maxIter (canonicalize env (orbPrec s) s) < 0" using a by (simp add: canonicalize_frame)
  with l show b unfolding b by (rule scf_loop_sentinel)
next
  let ?s0 = "canonicalize env (orbPrec s) s"
  let ?v0 = "start_vars s eo1"
  assume a: "maxCoeff (get_errors env (orbitals_n s)) = Inr eo1 \<and> maxIter s < 0
      \<and> (\<forall>j. 1 \<le> j \<and> j \<le> fuel \<longrightarrow> unconverged_after env ?s0 ?v0 j)"
  have "scf_loop fuel env ?s0 ?v0 = None"
  proof (rule scf_loop_cycles_runs)
    show "maxIter ?s0 < 0" using a by (simp add: canonicalize_frame)
    fix j assume "1 \<le> j" "j \<le> fuel"
    then show "unconverged_after env ?s0 ?v0 j" using a by simp
  qed
  moreover have "maxCoeff (get_errors env (orbitals_n s)) = Inr eo1" using a by simp
  ultimately show "optimize fuel env s = None"
    unfolding start_vars_def by (rule optimize_diverges [rotated])
qed

lemma toy_canonicalize:
  "canonicalize (toy g cc) p (toy_solver mx F op (z, []) Phi1 lam)
     = (toy_solver mx F op (\<i> * z, []) Phi1 lam)\<lparr>calls := [EvDiagonalize p]\<rparr>"
  by (simp add: canonicalize_def toy_def toy_solver_def log_calls_def amps_def orbs_def)

lemma toy_cycle_phase:
  "scf_cycle (toy 1 toy_conv)
     ((toy_solver mx [[- 1]] (Some (- 1)) (\<i>, []) (0, []) [])\<lparr>calls := cs\<rparr>)
     \<lparr>nIter = k, converged = False, orb_prec = 1 / 1000, err_o = 1, err_t = 1, err_p = 1\<rparr>
   = Inr (\<lparr>nIter = k, converged = True, orb_prec = 1 / 1000, err_o = 0, err_t = 0, err_p = 1\<rparr>,
       \<lparr>canonical = True, maxIter = mx, orbPrec = 1 / 1000, property = [- 1],
          orbError = [0], fMat_n = [[- 1]], fOper_n = - 1,
          fOper_np1 = Some (- 1), orbitals_n = (\<i>, []),
          orbitals_np1 = (0, []), helmholtz = [- 1],
          calls = cs @ orbital_calls (1 / 1000) @ EvCheckConvergence True
                    # update_calls (1 / 1000) @ rotate_calls (1 / 1000)\<rparr>)"
  by (simp add: toy_eval)

lemma toy_cycle_gain:
  "scf_cycle (toy 2 toy_conv)
     ((toy_solver mx [[- 1]] (Some (- 1)) (\<i>, []) (0, []) [])\<lparr>calls := cs\<rparr>)
     \<lparr>nIter = k, converged = False, orb_prec = 1 / 1000, err_o = 1, err_t = 1, err_p = 1\<rparr>
   = Inr (\<lparr>nIter = k, converged = False, orb_prec = 1 / 1000, err_o = 1, err_t = 1, err_p = 1\<rparr>,
       \<lparr>canonical = True, maxIter = mx, orbPrec = 1 / 1000, property = [- 1],
          orbError = [1], fMat_n = [[- (3 / 2)]], fOper_n = - 1,
          fOper_np1 = Some (- 1), orbitals_n = (\<i>, []),
          orbitals_np1 = (0, []), helmholtz = [- 1],
          calls = cs @ orbital_calls (1 / 1000) @ EvCheckConvergence False
                    # update_calls (1 / 1000) @ rotate_calls (1 / 1000)\<rparr>)"
  by (simp add: toy_eval)

lemma toy_start:
  "canonicalize (toy g cc) p (toy_solver mx F op (1, []) Phi1 lam)
     = (toy_solver mx F op (\<i>, []) Phi1 lam)\<lparr>calls := [EvDiagonalize p]\<rparr>"
  "start_vars (toy_solver mx F op Phi Phi1 lam) 1
     = \<lparr>nIter = 0, converged = False, orb_prec = 1 / 1000, err_o = 1, err_t = 1, err_p = 1\<rparr>"
  by (simp_all add: toy_canonicalize toy_solver_sel start_vars_def)

lemma toy_optimize_sentinel:
  "optimize 2 (toy 1 toy_conv) (toy_solver (- 1) [[- 1]] (Some (- 1)) (1, []) (0, []) [])
   = Some (Inr (True,
         \<lparr>canonical = True, maxIter = - 1, orbPrec = 1 / 1000,
            property = [- 1], orbError = [0], fMat_n = [[- 1]],
            fOper_n = - 1, fOper_np1 = Some (- 1), orbitals_n = (- 1, []),
            orbitals_np1 = (0, []), helmholtz = [- 1],
            calls = EvDiagonalize (1 / 1000)
                      # (orbital_calls (1 / 1000) @ EvCheckConvergence True
                          # update_calls (1 / 1000) @ rotate_calls (1 / 1000))
                      @ [EvDiagonalize (1 / 10000)]\<rparr>))"
proof -
  let ?s = "toy_solver (- 1) [[- 1]] (Some (- 1)) (1, []) (0, []) []"
  have e: "maxCoeff (get_errors (toy 1 toy_conv) (orbitals_n ?s)) = Inr 1"
    by (simp add: toy_solver_sel toy_get_errors)
  have l: "scf_loop 2 (toy 1 toy_conv) (canonicalize (toy 1 toy_conv) (orbPrec ?s) ?s)
       \<lparr>nIter = 0, converged = False, orb_prec = orbPrec ?s, err_o = 1, err_t = 1, err_p = 1\<rparr>
     = Some (Inr (\<lparr>nIter = 1, converged = True, orb_prec = 1 / 1000, err_o = 0, err_t = 0, err_p = 1\<rparr>,
       \<lparr>canonical = True, maxIter = - 1, orbPrec = 1 / 1000, property = [- 1],
          orbError = [0], fMat_n = [[- 1]], fOper_n = - 1,
          fOper_np1 = Some (- 1), orbitals_n = (\<i>, []),
          orbitals_np1 = (0, []), helmholtz = [- 1],
          calls = [EvDiagonalize (1 / 1000)] @ orbital_calls (1 / 1000) @ EvCheckConvergence True
                    # update_calls (1 / 1000) @ rotate_calls (1 / 1000)\<rparr>))"
    unfolding numeral_2_eq_2 toy_start(1) toy_solver_sel
    by (rule scf_loop_break) (simp_all add: toy_solver_sel toy_cycle_phase)
  show ?thesis
    unfolding optimize_returns [OF e l]
    by (simp add: canonicalize_def toy_def log_calls_def amps_def orbs_def)
qed


lemma toy_unconverged:
  "unconverged_after (toy 2 toy_conv)
     ((toy_solver mx [[- 1]] (Some (- 1)) (\<i>, []) (0, []) [])\<lparr>calls := cs\<rparr>)
     \<lparr>nIter = 0, converged = False, orb_prec = 1 / 1000, err_o = 1, err_t = 1, err_p = 1\<rparr>
     (Suc 0)"
  "cycles (Suc 0) (toy 2 toy_conv)
     ((toy_solver mx [[- 1]] (Some (- 1)) (\<i>, []) (0, []) [])\<lparr>calls := cs\<rparr>)
     \<lparr>nIter = 0, converged = False, orb_prec = 1 / 1000, err_o = 1, err_t = 1, err_p = 1\<rparr>
   = Inr (\<lparr>nIter = 1, converged = False, orb_prec = 1 / 1000, err_o = 1, err_t = 1, err_p = 1\<rparr>,
       \<lparr>canonical = True, maxIter = mx, orbPrec = 1 / 1000, property = [- 1],
          orbError = [1], fMat_n = [[- (3 / 2)]], fOper_n = - 1,
          fOper_np1 = Some (- 1), orbitals_n = (\<i>, []),
          orbitals_np1 = (0, []), helmholtz = [- 1],
          calls = cs @ orbital_calls (1 / 1000) @ EvCheckConvergence False
                    # update_calls (1 / 1000) @ rotate_calls (1 / 1000)\<rparr>)"
  by (simp_all add: unconverged_after_def toy_cycle_gain)

theorem iteration_cap_witness:
  "(let T = toy 2 toy_conv;
        sA = toy_solver 1 [[- 1]] (Some (- 1)) (1, []) (0, []) [];
        sB = toy_solver (- 1) [[- 1]] (Some (- 1)) (1, []) (0, []) []
    in 0 \<le> maxIter sA \<and> nat (maxIter sA) < 2
       \<and> (\<forall>d. reduce_vector T (get_norms T d) \<noteq> [])
       \<and> get_errors T (orbitals_n sA) \<noteq> [] \<and> fOper_np1 sA \<noteq> None
       \<and> (\<exists>eo v' s2 k.
            maxCoeff (get_errors T (orbitals_n sA)) = Inr eo
          \<and> scf_loop 2 T (canonicalize T (orbPrec sA) sA) (start_vars sA eo)
              = Some (Inr (v', s2))
          \<and> optimize 2 T sA
              = Some (Inr (converged v', canonicalize T (orb_prec v' / 10) s2))
          \<and> k \<le> nat (maxIter sA)
          \<and> length (property s2) = length (property sA) + k
          \<and> length (orbError s2) = length (orbError sA) + k
          \<and> (0 < k \<longrightarrow> converged v' = checkConvergence T (err_o v') (err_p v'))
          \<and> (\<not> converged v' \<longrightarrow> k = nat (maxIter sA)))
       \<and> maxCoeff (get_errors T (orbitals_n sA)) = Inr 1
       \<and> unconverged_after T (canonicalize T (orbPrec sA) sA) (start_vars sA 1) 1
       \<and> optimize 2 T sA
           = Some (Inr (False,
               \<lparr>canonical = True, maxIter = 1, orbPrec = 1 / 1000, property = [- 1],
                  orbError = [1], fMat_n = [[- (3 / 2)]], fOper_n = - 1,
                  fOper_np1 = Some (- 1), orbitals_n = (- 1, []),
                  orbitals_np1 = (0, []), helmholtz = [- 1],
                  calls = EvDiagonalize (1 / 1000)
                      # (orbital_calls (1 / 1000) @ EvCheckConvergence False
                          # update_calls (1 / 1000) @ rotate_calls (1 / 1000))
                      @ [EvDiagonalize (1 / 10000)]\<rparr>))
       \<and> maxIter sB < 0
       \<and> (\<exists>S. optimize 2 (toy 1 toy_conv) sB = Some (Inr (True, S)))
       \<and> maxCoeff (get_errors T (orbitals_n sB)) = Inr 1
       \<and> unconverged_after T (canonicalize T (orbPrec sB) sB) (start_vars sB 1) 1
       \<and> optimize 1 T sB = None)"
proof -
  let ?T = "toy 2 toy_conv"
  let ?sA = "toy_solver 1 [[- 1]] (Some (- 1)) (1, []) (0, []) []"
  let ?sB = "toy_solver (- 1) [[- 1]] (Some (- 1)) (1, []) (0, []) []"
  have hA: "0 \<le> maxIter ?sA \<and> nat (maxIter ?sA) < 2
      \<and> (\<forall>d. reduce_vector ?T (get_norms ?T d) \<noteq> [])
      \<and> get_errors ?T (orbitals_n ?sA) \<noteq> [] \<and> fOper_np1 ?sA \<noteq> None"
    by (simp add: toy_solver_sel toy_norms_nonempty toy_errors_nonempty)
  have eA: "maxCoeff (get_errors ?T (orbitals_n ?sA)) = Inr 1"
    and eB: "maxCoeff (get_errors ?T (orbitals_n ?sB)) = Inr 1"
    by (simp_all add: toy_solver_sel toy_get_errors)
  have uA: "unconverged_after ?T (canonicalize ?T (orbPrec ?sA) ?sA) (start_vars ?sA 1) 1"
    and uB: "unconverged_after ?T (canonicalize ?T (orbPrec ?sB) ?sB) (start_vars ?sB 1) 1"
    unfolding One_nat_def toy_start by (rule toy_unconverged(1))+
  have allA: "\<forall>j. 1 \<le> j \<and> j \<le> nat (maxIter ?sA) \<longrightarrow>
      unconverged_after ?T (canonicalize ?T (orbPrec ?sA) ?sA) (start_vars ?sA 1) j"
  proof (intro allI impI)
    fix j :: nat assume "1 \<le> j \<and> j \<le> nat (maxIter ?sA)"
    then have "j = 1" by (simp add: toy_solver_sel)
    then show "unconverged_after ?T (canonicalize ?T (orbPrec ?sA) ?sA) (start_vars ?sA 1) j"
      using uA by simp
  qed
  have allB: "\<forall>j. 1 \<le> j \<and> j \<le> 1 \<longrightarrow>
      unconverged_after ?T (canonicalize ?T (orbPrec ?sB) ?sB) (start_vars ?sB 1) j"
  proof (intro allI impI)
    fix j :: nat assume "1 \<le> j \<and> j \<le> 1"
    then have "j = 1" by simp
    then show "unconverged_after ?T (canonicalize ?T (orbPrec ?sB) ?sB) (start_vars ?sB 1) j"
      using uB by simp
  qed
  have mA: "0 \<le> maxIter ?sA" "nat (maxIter ?sA) < 2" and mB: "maxIter ?sB < 0"
    by (simp_all add: toy_solver_sel)
  note t = iteration_cap [where env = ?T and s = ?sA and fuel = 2 and ?eo1.0 = 1]
  note a = t [THEN conjunct1, rule_format, OF hA]
  have "\<exists>v' s2.
            cycles (nat (maxIter ?sA)) ?T (canonicalize ?T (orbPrec ?sA) ?sA) (start_vars ?sA 1)
              = Inr (v', s2)
          \<and> optimize 2 ?T ?sA = Some (Inr (False, canonicalize ?T (orb_prec v' / 10) s2))
          \<and> length (property s2) = length (property ?sA) + nat (maxIter ?sA)
          \<and> length (orbError s2) = length (orbError ?sA) + nat (maxIter ?sA)"
    by (rule t [THEN conjunct2, THEN conjunct1, rule_format])
      (intro conjI eA mA allA)
  then obtain v' s2 where
    k: "cycles (nat (maxIter ?sA)) ?T (canonicalize ?T (orbPrec ?sA) ?sA) (start_vars ?sA 1)
              = Inr (v', s2)"
       "optimize 2 ?T ?sA = Some (Inr (False, canonicalize ?T (orb_prec v' / 10) s2))"
       "length (property s2) = length (property ?sA) + nat (maxIter ?sA)"
       "length (orbError s2) = length (orbError ?sA) + nat (maxIter ?sA)"
    by (elim exE conjE) (rule that; assumption)
  have n1: "nat (maxIter ?sA) = Suc 0" by (simp add: toy_solver_sel)
  have vs: "Inr (v', s2) = Inr (\<lparr>nIter = 1, converged = False, orb_prec = 1 / 1000, err_o = 1, err_t = 1, err_p = 1\<rparr>,
       \<lparr>canonical = True, maxIter = 1, orbPrec = 1 / 1000, property = [- 1],
          orbError = [1], fMat_n = [[- (3 / 2)]], fOper_n = - 1,
          fOper_np1 = Some (- 1), orbitals_n = (\<i>, []),
          orbitals_np1 = (0, []), helmholtz = [- 1],
          calls = [EvDiagonalize (1 / 1000)] @ orbital_calls (1 / 1000) @ EvCheckConvergence False
                    # update_calls (1 / 1000) @ rotate_calls (1 / 1000)\<rparr>)"
    using k(1) unfolding n1 toy_start toy_unconverged(2) by (simp add: toy_solver_sel)
  have oA: "optimize 2 ?T ?sA
           = Some (Inr (False,
               \<lparr>canonical = True, maxIter = 1, orbPrec = 1 / 1000, property = [- 1],
                  orbError = [1], fMat_n = [[- (3 / 2)]], fOper_n = - 1,
                  fOper_np1 = Some (- 1), orbitals_n = (- 1, []),
                  orbitals_np1 = (0, []), helmholtz = [- 1],
                  calls = EvDiagonalize (1 / 1000)
                      # (orbital_calls (1 / 1000) @ EvCheckConvergence False
                          # update_calls (1 / 1000) @ rotate_calls (1 / 1000))
                      @ [EvDiagonalize (1 / 10000)]\<rparr>))"
    using vs unfolding k(2)
    by (simp add: canonicalize_def toy_def log_calls_def amps_def orbs_def)
  have oB: "\<exists>S. optimize 2 (toy 1 toy_conv) ?sB = Some (Inr (True, S))"
    using toy_optimize_sentinel by (rule exI)
  have c: "optimize 1 ?T ?sB = None"
    by (rule iteration_cap [where env = ?T and s = ?sB and fuel = 1 and ?eo1.0 = 1,
          THEN conjunct2, THEN conjunct2, THEN conjunct2, rule_format])
      (intro conjI eB mB allB)
  show ?thesis
    unfolding Let_def
    by (intro conjI) (rule hA [THEN conjunct1] mA a eA uA oA mB oB eB uB c
        hA [THEN conjunct2, THEN conjunct2, THEN conjunct1]
        hA [THEN conjunct2, THEN conjunct2, THEN conjunct2, THEN conjunct1]
        hA [THEN conjunct2, THEN conjunct2, THEN conjunct2, THEN conjunct2])+
qed

end
